theory Spec2Isabelle
  imports Main "HOL-Library.Sublist"
begin

section \<open>Promises and the observable trace\<close>

text \<open>
  The repository is JavaScript. Two modules are embedded: the evaluator
  (\<^verbatim>\<open>src/lib/server/evaluator/index.js\<close>, function \<^verbatim>\<open>initiateEvaluation\<close>) and the
  authentication wrappers (\<^verbatim>\<open>register\<close>, \<^verbatim>\<open>login\<close>, \<^verbatim>\<open>resetPassword\<close>).

  Both are \<^verbatim>\<open>async\<close> functions over imported collaborators. A promise that the code awaits
  is modelled by what it ends up as: it is fulfilled with a value, it is rejected with an
  error, or it stays pending for ever. For \<^verbatim>\<open>await f(...)\<close> inside a \<^verbatim>\<open>try\<close>, a call that
  throws synchronously and a call that returns a rejected promise reach the same \<^verbatim>\<open>catch\<close>,
  so both are \<open>Rejected\<close>.
\<close>

datatype ('e, 'a) promise = Pending | Fulfilled 'a | Rejected 'e

text \<open>
  The promise returned by the issue sink is not awaited where it is created: it is handed
  to \<^verbatim>\<open>Promise.all\<close>. Its settlement is an event of its own, at a time chosen by the
  sink; the order of these times is the interleaving of the per-URL submissions, and
  promises with the same time settle in the same turn of the event loop.
\<close>

datatype 'e fate = FulfilsAt nat | RejectsAt nat 'e | NeverSettles

text \<open>
  What the \<^verbatim>\<open>async\<close> callback of \<^verbatim>\<open>map\<close> leaves in the array \<^verbatim>\<open>promises\<close>: a promise that is
  already rejected because the body threw, or a promise that follows the one returned by
  \<^verbatim>\<open>updateIssueDocument\<close>.
\<close>

datatype 'e task = Threw 'e | Adopted "'e fate"

text \<open>
  Modelled from the spec: the shapes of the configuration and of the scan data of one
  URL, which the source does not declare. The source reads \<^verbatim>\<open>config.domain\<close> and
  \<^verbatim>\<open>config.dateOfScan\<close>, writes \<^verbatim>\<open>config.urlId\<close>, and reads the four slices of
  \<^verbatim>\<open>urlData\<close>; the data model of the spec gives \<open>ScanConfig\<close> these three fields, the
  last one absent until it is written, and \<open>UrlScanData\<close> these four. The slices, the
  duplicate context and the results of the checks are opaque.
\<close>

record config =
  domain :: string
  dateOfScan :: string
  urlId :: "string option"

record 'd urlData =
  meta :: 'd
  body :: 'd
  social :: 'd
  schema :: 'd

text \<open>
  An object that the code itself builds (\<^verbatim>\<open>let issues = {}\<close>, then one assignment per
  property) is a list of properties in insertion order, so that its shape is computed and
  not assumed.
\<close>

type_synonym 'v object = "(string \<times> 'v) list"

fun set_prop :: "'v object \<Rightarrow> string \<Rightarrow> 'v \<Rightarrow> 'v object" where
  "set_prop [] k v = [(k, v)]"
| "set_prop ((k', v') # ps) k v =
     (if k' = k then (k, v) # ps else (k', v') # set_prop ps k v)"

datatype ('e, 'd, 'r) val =
    VStr string
  | VErr 'e
  | VData 'd
  | VConfig config
  | VIssues "'r object"

text \<open>
  The trace lists, in the order they happen: every call to an imported function or to the
  console, with its arguments as they are at the moment of the call (\<open>VConfig\<close> holds the
  fields of the shared \<^verbatim>\<open>config\<close> object at that moment); the settlement of the promise
  of a per-URL callback as \<^verbatim>\<open>Promise.all\<close> sees it, named by the key of its entry; and the
  settlement of the promise of \<^verbatim>\<open>initiateEvaluation\<close> itself.
\<close>

datatype ('e, 'd, 'r) event =
    Call string "('e, 'd, 'r) val list"
  | Settle string "'e + unit"
  | Done "'e + unit"

section \<open>The collaborators of the evaluator\<close>

text \<open>
  \<^verbatim>\<open>getConfig\<close>, the two retrieval functions, the four checks and the issue sink are
  imported from modules that are not part of the embedded sources; they are parameters.
  A check returns a value or throws (\<open>Inl\<close>). The sink throws, or returns a promise with
  a fate. The scan result set is given by \<^verbatim>\<open>Object.entries(scanResults)\<close>: the
  \<open>(urlId, urlData)\<close> pairs of the fetched object in enumeration order.
\<close>

record ('e, 'd, 'r) env =
  getConfig :: "string \<Rightarrow> string \<Rightarrow> config"
  getScanCollection :: "string \<Rightarrow> string \<Rightarrow> ('e, (string \<times> 'd urlData) list) promise"
  getDataForDuplicateCheck :: "string \<Rightarrow> string \<Rightarrow> ('e, 'd) promise"
  checkMetaData :: "'d \<Rightarrow> 'd \<Rightarrow> 'e + 'r"
  checkBodyData :: "'d \<Rightarrow> 'e + 'r"
  checkSocialData :: "'d \<Rightarrow> 'e + 'r"
  checkSchemaData :: "'d \<Rightarrow> 'e + 'r"
  updateIssueDocument :: "config \<Rightarrow> 'r object \<Rightarrow> 'e + 'e fate"

section \<open>The per-URL callback\<close>

text \<open>
  Lines 41 and 45 to 48 of the arrow function given to \<^verbatim>\<open>map\<close>: start from the empty
  object, call the four checks in this order, none of them awaited, and store what each
  call returns under its property. A check that throws ends the callback there: the later
  checks are not called. The result is the calls made and the error thrown or the issues
  object.
\<close>

definition collect_issues ::
  "('e, 'd, 'r) env \<Rightarrow> 'd \<Rightarrow> 'd urlData \<Rightarrow> ('e, 'd, 'r) event list \<times> ('e + 'r object)" where
  "collect_issues env all urlData =
     (let issues = [];
          c1 = Call ''checkMetaData'' [VData (meta urlData), VData all];
          c2 = Call ''checkBodyData'' [VData (body urlData)];
          c3 = Call ''checkSocialData'' [VData (social urlData)];
          c4 = Call ''checkSchemaData'' [VData (schema urlData)]
      in
      (case checkMetaData env (meta urlData) all of
        Inl e \<Rightarrow> ([c1], Inl e)
      | Inr r1 \<Rightarrow>
      (let issues = set_prop issues ''meta'' r1 in
      (case checkBodyData env (body urlData) of
        Inl e \<Rightarrow> ([c1, c2], Inl e)
      | Inr r2 \<Rightarrow>
      (let issues = set_prop issues ''body'' r2 in
      (case checkSocialData env (social urlData) of
        Inl e \<Rightarrow> ([c1, c2, c3], Inl e)
      | Inr r3 \<Rightarrow>
      (let issues = set_prop issues ''social'' r3 in
      (case checkSchemaData env (schema urlData) of
        Inl e \<Rightarrow> ([c1, c2, c3, c4], Inl e)
      | Inr r4 \<Rightarrow>
      (let issues = set_prop issues ''schema'' r4 in
        ([c1, c2, c3, c4], Inr issues))))))))))"

text \<open>
  The arrow function (lines 40 to 52). It contains no \<^verbatim>\<open>await\<close>, so a call of it runs
  from its first line to its \<^verbatim>\<open>return\<close> without suspending. It writes the key into the
  one configuration object of the run (line 42), collects the issues, and calls the sink
  with that object and the issues (line 51). It takes the configuration as the previous
  call left it and returns it as it leaves it, with the events of the calls it made and
  the promise it leaves in \<^verbatim>\<open>promises\<close>. The source creates the empty issues object
  (line 41) before the write of line 42; neither depends on the other.
\<close>

definition callback ::
  "('e, 'd, 'r) env \<Rightarrow> 'd \<Rightarrow> string \<times> 'd urlData \<Rightarrow> config
     \<Rightarrow> config \<times> ('e, 'd, 'r) event list \<times> 'e task" where
  "callback env all entry config0 =
     (case entry of (urlId', urlData) \<Rightarrow>
       (let config = config0\<lparr>urlId := Some urlId'\<rparr> in
        (case collect_issues env all urlData of
          (evs, Inl e) \<Rightarrow> (config, evs, Threw e)
        | (evs, Inr issues) \<Rightarrow>
        (let c5 = Call ''updateIssueDocument'' [VConfig config, VIssues issues] in
        (case updateIssueDocument env config issues of
          Inl e \<Rightarrow> (config, evs @ [c5], Threw e)
        | Inr p \<Rightarrow> (config, evs @ [c5], Adopted p))))))"

text \<open>
  \<^verbatim>\<open>Object.entries(scanResults).map(callback)\<close>: the callback is called on each entry in
  turn, each call on the configuration object as the previous call left it. The promises
  are kept with the key of their entry, which names them in the trace.
\<close>

fun map_entries ::
  "('e, 'd, 'r) env \<Rightarrow> 'd \<Rightarrow> (string \<times> 'd urlData) list \<Rightarrow> config
     \<Rightarrow> config \<times> ('e, 'd, 'r) event list \<times> (string \<times> 'e task) list" where
  "map_entries env all [] config = (config, [], [])"
| "map_entries env all (entry # entries) config =
     (case callback env all entry config of (config1, evs1, t) \<Rightarrow>
       (case map_entries env all entries config1 of (config2, evs2, ts) \<Rightarrow>
         (config2, evs1 @ evs2, (fst entry, t) # ts)))"

section \<open>The join\<close>

text \<open>
  The settlement of the promise of one callback, with the turn of the event loop in which
  \<^verbatim>\<open>Promise.all\<close> sees it. A promise that is already rejected when \<^verbatim>\<open>Promise.all\<close> is
  called is seen in the first turn, turn 0. A promise that follows a promise of the sink
  is seen when that one has settled: the sink's time \<open>t\<close> is turn \<open>t + 1\<close>, also for time 0,
  since the reaction to a followed promise is queued behind those of the promises that
  are already rejected. A promise that follows one that never settles is never seen.
\<close>

fun settlement :: "string \<times> 'e task \<Rightarrow> (nat \<times> string \<times> ('e + unit)) list" where
  "settlement (k, Threw e) = [(0, k, Inl e)]"
| "settlement (k, Adopted (FulfilsAt t)) = [(Suc t, k, Inr ())]"
| "settlement (k, Adopted (RejectsAt t e)) = [(Suc t, k, Inl e)]"
| "settlement (k, Adopted NeverSettles) = []"

text \<open>
  The order in which \<^verbatim>\<open>Promise.all\<close> sees its input promises settle: by turn, and in
  array order within a turn.
\<close>

definition settle_order :: "(string \<times> 'e task) list \<Rightarrow> (nat \<times> string \<times> ('e + unit)) list" where
  "settle_order ts = sort_key fst (concat (map settlement ts))"

text \<open>
  \<^verbatim>\<open>await Promise.all(promises)\<close>. The first argument is the number of promises that
  have not been fulfilled yet. With none left the wait ends. A rejection ends the wait
  with that error; the awaiting function continues only after the reactions that are
  queued in the same turn, so \<^verbatim>\<open>Promise.all\<close> still sees the other settlements of that
  turn before the \<^verbatim>\<open>catch\<close> block runs. If the settlements run out first, the wait never
  ends. The result is the settlements seen up to the end of the wait, how the wait ended,
  and the settlements still to come.
\<close>

fun promise_all ::
  "nat \<Rightarrow> (nat \<times> string \<times> ('e + unit)) list
     \<Rightarrow> (nat \<times> string \<times> ('e + unit)) list \<times> ('e, unit) promise
         \<times> (nat \<times> string \<times> ('e + unit)) list" where
  "promise_all 0 ss = ([], Fulfilled (), ss)"
| "promise_all (Suc n) [] = ([], Pending, [])"
| "promise_all (Suc n) ((t, k, Inl e) # ss) =
     ((t, k, Inl e) # takeWhile (\<lambda>s. fst s = t) ss, Rejected e, dropWhile (\<lambda>s. fst s = t) ss)"
| "promise_all (Suc n) ((t, k, Inr u) # ss) =
     (case promise_all n ss of (seen, p, rest) \<Rightarrow> ((t, k, Inr u) # seen, p, rest))"

definition settle :: "nat \<times> string \<times> ('e + unit) \<Rightarrow> ('e, 'd, 'r) event" where
  "settle s = Settle (fst (snd s)) (snd (snd s))"

section \<open>initiateEvaluation\<close>

text \<open>
  The \<^verbatim>\<open>catch\<close> block: log the error, throw it again.
\<close>

definition catch_block :: "'e \<Rightarrow> ('e, 'd, 'r) event list" where
  "catch_block error =
     [Call ''console.error'' [VStr ''Error during evaluation:'', VErr error], Done (Inl error)]"

text \<open>
  The function returns its trace and the final state of the promise it returns. Promises
  of the sink that settle after the function has thrown are not cancelled by anything in
  the code; their settlements follow in the trace.
\<close>

definition initiateEvaluation ::
  "('e, 'd, 'r) env \<Rightarrow> string \<Rightarrow> string \<Rightarrow> ('e, 'd, 'r) event list \<times> ('e, unit) promise" where
  "initiateEvaluation env domain' dateOfScan' =
     (let config = getConfig env domain' dateOfScan';
          t0 = [Call ''getConfig'' [VStr domain', VStr dateOfScan'],
                Call ''getScanCollection'' [VStr (domain config), VStr (dateOfScan config)]]
      in
      (case getScanCollection env (domain config) (dateOfScan config) of
        Pending \<Rightarrow> (t0, Pending)
      | Rejected error \<Rightarrow> (t0 @ catch_block error, Rejected error)
      | Fulfilled scanResults \<Rightarrow>
      (let t1 = t0 @ [Call ''getDataForDuplicateCheck''
                        [VStr (domain config), VStr (dateOfScan config)]]
       in
      (case getDataForDuplicateCheck env (domain config) (dateOfScan config) of
        Pending \<Rightarrow> (t1, Pending)
      | Rejected error \<Rightarrow> (t1 @ catch_block error, Rejected error)
      | Fulfilled all \<Rightarrow>
      (case map_entries env all scanResults config of (config', t2, promises) \<Rightarrow>
      (case promise_all (length promises) (settle_order promises) of (seen, p, rest) \<Rightarrow>
      (let t3 = t1 @ t2 @ map settle seen in
      (case p of
        Pending \<Rightarrow> (t3, Pending)
      | Rejected error \<Rightarrow> (t3 @ catch_block error @ map settle rest, Rejected error)
      | Fulfilled u \<Rightarrow> (t3 @ [Done (Inr ())] @ map settle rest, Fulfilled ())))))))))"

section \<open>Reading the trace\<close>

text \<open>
  The argument lists of the calls to one function, in the order of the calls.
\<close>

fun calls_to :: "string \<Rightarrow> ('e, 'd, 'r) event list \<Rightarrow> ('e, 'd, 'r) val list list" where
  "calls_to f [] = []"
| "calls_to f (Call g args # evs) =
     (if g = f then args # calls_to f evs else calls_to f evs)"
| "calls_to f (Settle k out # evs) = calls_to f evs"
| "calls_to f (Done out # evs) = calls_to f evs"

text \<open>
  The sink submissions of a trace: the configuration as it was at the call, and the bundle.
\<close>

definition submissions :: "('e, 'd, 'r) event list \<Rightarrow> (config \<times> 'r object) list" where
  "submissions evs =
     concat (map (\<lambda>args. case args of [VConfig c, VIssues b] \<Rightarrow> [(c, b)] | _ \<Rightarrow> [])
       (calls_to ''updateIssueDocument'' evs))"

text \<open>
  The calls to the four checks, in the order they are made.
\<close>

fun is_check_call :: "('e, 'd, 'r) event \<Rightarrow> bool" where
  "is_check_call (Call g args) =
     (g = ''checkMetaData'' \<or> g = ''checkBodyData'' \<or> g = ''checkSocialData''
        \<or> g = ''checkSchemaData'')"
| "is_check_call (Settle k out) = False"
| "is_check_call (Done out) = False"

text \<open>
  The per-URL work: a call to a check or to the sink.
\<close>

fun is_per_url :: "('e, 'd, 'r) event \<Rightarrow> bool" where
  "is_per_url (Call g args) = (is_check_call (Call g args) \<or> g = ''updateIssueDocument'')"
| "is_per_url (Settle k out) = False"
| "is_per_url (Done out) = False"


text \<open>
  The promise that the callback leaves in \<^verbatim>\<open>promises\<close> for one entry.
\<close>

definition per_url :: "('e, 'd, 'r) env \<Rightarrow> 'd \<Rightarrow> config \<Rightarrow> string \<times> 'd urlData \<Rightarrow> 'e task" where
  "per_url env all config entry = snd (snd (callback env all entry config))"

text \<open>
  A promise of a callback that is fulfilled: the sink was called and its promise is
  fulfilled at some time.
\<close>

fun fulfils :: "string \<times> 'e task \<Rightarrow> bool" where
  "fulfils (k, Adopted (FulfilsAt t)) = True"
| "fulfils (k, Adopted (RejectsAt t e)) = False"
| "fulfils (k, Adopted NeverSettles) = False"
| "fulfils (k, Threw e) = False"

text \<open>
  What a check may return when it is asynchronous: a plain value, or a promise with
  its own future.
\<close>

datatype ('e, 'v) returned = Plain 'v | Thenable "('e, 'v) promise"

section \<open>The authentication wrappers\<close>

text \<open>
  \<^verbatim>\<open>register\<close>, \<^verbatim>\<open>login\<close> and \<^verbatim>\<open>resetPassword\<close> call the identity provider with the
  imported \<^verbatim>\<open>auth\<close> handle, await the result, and log to the console. The provider's
  functions and the handle are parameters. The source reads \<^verbatim>\<open>userCredential.user\<close>,
  \<^verbatim>\<open>user.uid\<close> and \<^verbatim>\<open>user.email\<close>: a credential has a user, and a user has the
  properties \<^verbatim>\<open>uid\<close> and \<^verbatim>\<open>email\<close> and whatever else the provider puts there. The
  object that \<^verbatim>\<open>login\<close> returns is built by the code and is a list of properties.
\<close>

record 'v firebaseUser =
  uid :: 'v
  email :: 'v

record 'u userCredential =
  user :: 'u

datatype ('e, 'a) auth_val = Auth 'a | Str string | Err 'e

type_synonym ('e, 'a) auth_call = "string \<times> ('e, 'a) auth_val list"

record ('e, 'a, 'u) firebase =
  auth :: 'a
  createUserWithEmailAndPassword :: "'a \<Rightarrow> string \<Rightarrow> string \<Rightarrow> ('e, 'u userCredential) promise"
  signInWithEmailAndPassword :: "'a \<Rightarrow> string \<Rightarrow> string \<Rightarrow> ('e, 'u userCredential) promise"
  sendPasswordResetEmail :: "'a \<Rightarrow> string \<Rightarrow> ('e, unit) promise"

definition register ::
  "('e, 'a, 'u) firebase \<Rightarrow> string \<Rightarrow> string \<Rightarrow> ('e, 'a) auth_call list \<times> ('e, 'u) promise" where
  "register fb email' password =
     (let c0 = (''createUserWithEmailAndPassword'', [Auth (auth fb), Str email', Str password]) in
      (case createUserWithEmailAndPassword fb (auth fb) email' password of
        Pending \<Rightarrow> ([c0], Pending)
      | Fulfilled userCredential \<Rightarrow>
          (let user' = user userCredential in
           ([c0, (''console.log'', [Str ''Registration successful''])], Fulfilled user'))
      | Rejected error \<Rightarrow>
          ([c0, (''console.log'', [Str ''Registration failed:'', Err error])], Rejected error)))"

definition login ::
  "('e, 'a, ('v, 'z) firebaseUser_scheme) firebase \<Rightarrow> string \<Rightarrow> string
     \<Rightarrow> ('e, 'a) auth_call list \<times> ('e, 'v object) promise" where
  "login fb email' password =
     (let c0 = (''signInWithEmailAndPassword'', [Auth (auth fb), Str email', Str password]) in
      (case signInWithEmailAndPassword fb (auth fb) email' password of
        Pending \<Rightarrow> ([c0], Pending)
      | Fulfilled userCredential \<Rightarrow>
          (let user' = user userCredential in
           ([c0, (''console.log'', [Str ''Login successful''])],
            Fulfilled [(''uid'', uid user'), (''email'', email user')]))
      | Rejected error \<Rightarrow>
          ([c0, (''console.log'', [Str ''Sign-in failed:'', Err error])], Rejected error)))"

definition resetPassword ::
  "('e, 'a, 'u) firebase \<Rightarrow> string \<Rightarrow> ('e, 'a) auth_call list \<times> ('e, unit) promise" where
  "resetPassword fb email' =
     (let c0 = (''sendPasswordResetEmail'', [Auth (auth fb), Str email']) in
      (case sendPasswordResetEmail fb (auth fb) email' of
        Pending \<Rightarrow> ([c0], Pending)
      | Fulfilled u \<Rightarrow>
          ([c0, (''console.log'', [Str ''Password reset email sent successfully''])], Fulfilled ())
      | Rejected error \<Rightarrow>
          ([c0, (''console.log'', [Str ''Password reset failed:'', Err error])], Rejected error)))"

section \<open>Example runs\<close>

text \<open>
  A scan of two URLs, with checks that return and a sink whose promise for the second
  URL is fulfilled before the one for the first.
\<close>

definition example_entries :: "(string \<times> string urlData) list" where
  "example_entries =
     [(''u1'', \<lparr>meta = ''m1'', body = ''b1'', social = ''s1'', schema = ''c1''\<rparr>),
      (''u2'', \<lparr>meta = ''m2'', body = ''b2'', social = ''s2'', schema = ''c2''\<rparr>)]"

definition example_env :: "(string, string, string) env" where
  "example_env =
     \<lparr>getConfig = (\<lambda>d s. \<lparr>domain = d, dateOfScan = s, urlId = None\<rparr>),
      getScanCollection = (\<lambda>d s. Fulfilled example_entries),
      getDataForDuplicateCheck = (\<lambda>d s. Fulfilled ''all''),
      checkMetaData = (\<lambda>m a. Inr (m @ a)),
      checkBodyData = (\<lambda>b. Inr b),
      checkSocialData = (\<lambda>x. Inr x),
      checkSchemaData = (\<lambda>x. Inr x),
      updateIssueDocument =
        (\<lambda>c b. if urlId c = Some ''u1'' then Inr (FulfilsAt 7) else Inr (FulfilsAt 3))\<rparr>"

text \<open>
  The same scan when the data source cannot be reached, and when the duplicate context
  comes back malformed.
\<close>

definition unreachable_env :: "(string, string, string) env" where
  "unreachable_env = example_env\<lparr>getScanCollection := (\<lambda>d s. Rejected ''unreachable'')\<rparr>"

definition malformed_env :: "(string, string, string) env" where
  "malformed_env = example_env\<lparr>getDataForDuplicateCheck := (\<lambda>d s. Rejected ''malformed'')\<rparr>"

text \<open>
  A scan with no URL, with and without its duplicate context.
\<close>

definition empty_scan_env :: "(string, string, string) env" where
  "empty_scan_env = example_env\<lparr>getScanCollection := (\<lambda>d s. Fulfilled [])\<rparr>"

definition no_context_env :: "(string, string, string) env" where
  "no_context_env =
     example_env\<lparr>getScanCollection := (\<lambda>d s. Fulfilled []),
                   getDataForDuplicateCheck := (\<lambda>d s. Rejected ''unavailable'')\<rparr>"

text \<open>
  A scan of three URLs where the metadata check throws on the second URL, the sink
  rejects the third at time 3 and accepts the first at time 7.
\<close>

definition failing_entries :: "(string \<times> string urlData) list" where
  "failing_entries =
     [(''u1'', \<lparr>meta = ''m1'', body = ''b1'', social = ''s1'', schema = ''c1''\<rparr>),
      (''u2'', \<lparr>meta = ''bad'', body = ''b2'', social = ''s2'', schema = ''c2''\<rparr>),
      (''u3'', \<lparr>meta = ''m3'', body = ''b3'', social = ''s3'', schema = ''c3''\<rparr>)]"

definition failing_env :: "(string, string, string) env" where
  "failing_env =
     \<lparr>getConfig = (\<lambda>d s. \<lparr>domain = d, dateOfScan = s, urlId = None\<rparr>),
      getScanCollection = (\<lambda>d s. Fulfilled failing_entries),
      getDataForDuplicateCheck = (\<lambda>d s. Fulfilled ''all''),
      checkMetaData = (\<lambda>m a. if m = ''bad'' then Inl ''bad meta'' else Inr (m @ a)),
      checkBodyData = (\<lambda>b. Inr b),
      checkSocialData = (\<lambda>x. Inr x),
      checkSchemaData = (\<lambda>x. Inr x),
      updateIssueDocument =
        (\<lambda>c b. if urlId c = Some ''u1'' then Inr (FulfilsAt 7) else Inr (RejectsAt 3 ''sink down''))\<rparr>"

text \<open>
  The same scan of three URLs with a sink that accepts every submission at time 1.
\<close>

definition accepting_sink_env :: "(string, string, string) env" where
  "accepting_sink_env = failing_env\<lparr>updateIssueDocument := (\<lambda>c b. Inr (FulfilsAt 1))\<rparr>"

text \<open>
  The scan of two URLs with a metadata check that throws on both.
\<close>

definition throwing_env :: "(string, string, string) env" where
  "throwing_env = example_env\<lparr>checkMetaData := (\<lambda>m a. Inl (''bad '' @ m))\<rparr>"

text \<open>
  A check may be asynchronous: here three of the four checks return promises, one of them
  pending for ever and one rejected later.
\<close>

definition async_env :: "(string, string, (string, string) returned) env" where
  "async_env =
     \<lparr>getConfig = (\<lambda>d s. \<lparr>domain = d, dateOfScan = s, urlId = None\<rparr>),
      getScanCollection = (\<lambda>d s. Fulfilled example_entries),
      getDataForDuplicateCheck = (\<lambda>d s. Fulfilled ''all''),
      checkMetaData = (\<lambda>m a. Inr (Thenable Pending)),
      checkBodyData = (\<lambda>b. Inr (Thenable (Rejected ''late''))),
      checkSocialData = (\<lambda>x. Inr (Thenable (Fulfilled x))),
      checkSchemaData = (\<lambda>x. Inr (Plain x)),
      updateIssueDocument = (\<lambda>c b. Inr (FulfilsAt 0))\<rparr>"

text \<open>
  An identity provider that accepts every call, and one that rejects every call. The
  user it returns has one more property than the two that \<^verbatim>\<open>login\<close> reads.
\<close>

record 'v namedUser = "'v firebaseUser" +
  displayName :: 'v

definition example_user :: "string namedUser" where
  "example_user = \<lparr>uid = ''U1'', email = ''ann@example.com'', displayName = ''Ann''\<rparr>"

definition example_firebase :: "(string, string, string namedUser) firebase" where
  "example_firebase =
     \<lparr>auth = ''app'',
      createUserWithEmailAndPassword = (\<lambda>a e p. Fulfilled \<lparr>user = example_user\<rparr>),
      signInWithEmailAndPassword = (\<lambda>a e p. Fulfilled \<lparr>user = example_user\<rparr>),
      sendPasswordResetEmail = (\<lambda>a e. Fulfilled ())\<rparr>"

definition failing_firebase :: "(string, string, string namedUser) firebase" where
  "failing_firebase =
     \<lparr>auth = ''app'',
      createUserWithEmailAndPassword = (\<lambda>a e p. Rejected ''auth/email-already-in-use''),
      signInWithEmailAndPassword = (\<lambda>a e p. Rejected ''auth/wrong-password''),
      sendPasswordResetEmail = (\<lambda>a e. Rejected ''auth/user-not-found'')\<rparr>"

section \<open>The callback and the map\<close>

text \<open>
  A call of the callback leaves the configuration with its own key, whatever key was
  there before; so the calls of \<^verbatim>\<open>map\<close> can be described one entry at a time.
\<close>

lemma callback_config: "fst (callback env all (k, d) c) = c\<lparr>urlId := Some k\<rparr>"
  by (simp add: callback_def Let_def split: prod.splits sum.splits)

lemma callback_urlId_overwritten: "callback env all en (c\<lparr>urlId := y\<rparr>) = callback env all en c"
  by (simp add: callback_def split: prod.splits)

lemma map_entries_events:
  "fst (snd (map_entries env all es c)) = concat (map (\<lambda>en. fst (snd (callback env all en c))) es)"
proof (induction es arbitrary: c)
  case Nil
  show ?case by simp
next
  case (Cons en es)
  obtain k d where en: "en = (k, d)" by (cases en)
  obtain c1 evs1 t where cb: "callback env all (k, d) c = (c1, evs1, t)"
    by (cases "callback env all (k, d) c")
  have c1: "c1 = c\<lparr>urlId := Some k\<rparr>"
    using callback_config [of env all k d c] cb by simp
  show ?case
    using Cons.IH [of c1] by (simp add: en cb c1 callback_urlId_overwritten case_prod_beta)
qed

lemma map_entries_tasks:
  "snd (snd (map_entries env all es c)) = map (\<lambda>en. (fst en, per_url env all c en)) es"
proof (induction es arbitrary: c)
  case Nil
  show ?case by simp
next
  case (Cons en es)
  obtain k d where en: "en = (k, d)" by (cases en)
  obtain c1 evs1 t where cb: "callback env all (k, d) c = (c1, evs1, t)"
    by (cases "callback env all (k, d) c")
  have c1: "c1 = c\<lparr>urlId := Some k\<rparr>"
    using callback_config [of env all k d c] cb by simp
  show ?case
    using Cons.IH [of c1]
    by (simp add: en cb c1 per_url_def callback_urlId_overwritten case_prod_beta)
qed

text \<open>
  After the map the one configuration object holds the key of the last entry. The sink
  is given this object, not a copy: if it reads \<open>urlId\<close> from it later than at the call, it
  reads the key of the last entry.
\<close>

lemma map_entries_config:
  "fst (map_entries env all es c) = (if es = [] then c else c\<lparr>urlId := Some (fst (last es))\<rparr>)"
proof (induction es arbitrary: c)
  case Nil
  show ?case by simp
next
  case (Cons en es)
  obtain k d where en: "en = (k, d)" by (cases en)
  obtain c1 evs1 t where cb: "callback env all (k, d) c = (c1, evs1, t)"
    by (cases "callback env all (k, d) c")
  have c1: "c1 = c\<lparr>urlId := Some k\<rparr>"
    using callback_config [of env all k d c] cb by simp
  show ?case
    using Cons.IH [of c1] by (simp add: en cb c1 case_prod_beta)
qed

lemma calls_to_append: "calls_to f (xs @ ys) = calls_to f xs @ calls_to f ys"
  by (induction f xs rule: calls_to.induct) simp_all

lemma calls_to_concat: "calls_to f (concat xss) = concat (map (calls_to f) xss)"
  by (induction xss) (simp_all add: calls_to_append)

lemma calls_to_settle: "calls_to f (map settle ss) = []"
  by (induction ss) (simp_all add: settle_def)




section \<open>The join, in terms of the promises\<close>

lemma promise_all_split:
  "promise_all n ss = (seen, p, rest) \<Longrightarrow> seen @ rest = ss"
  by (induction n ss arbitrary: seen p rest rule: promise_all.induct)
     (auto split: prod.splits)

lemma promise_all_fulfilled_iff:
  "fst (snd (promise_all n ss)) = Fulfilled () \<longleftrightarrow>
     n \<le> length (takeWhile (\<lambda>s. \<not> isl (snd (snd s))) ss)"
  by (induction n ss rule: promise_all.induct) (auto split: prod.splits)

lemma promise_all_rejected_iff:
  "(\<exists>e. fst (snd (promise_all n ss)) = Rejected e) \<longleftrightarrow>
     length (takeWhile (\<lambda>s. \<not> isl (snd (snd s))) ss) < n \<and> (\<exists>s\<in>set ss. isl (snd (snd s)))"
  by (induction n ss rule: promise_all.induct) (auto split: prod.splits)

lemma promise_all_fulfilled_seen:
  "promise_all n ss = (seen, Fulfilled u, rest) \<Longrightarrow> length seen = n"
  by (induction n ss arbitrary: seen rest rule: promise_all.induct)
     (auto split: prod.splits)

lemma promise_all_pending_rest:
  "promise_all n ss = (seen, Pending, rest) \<Longrightarrow> rest = []"
  by (induction n ss arbitrary: seen rest rule: promise_all.induct)
     (auto split: prod.splits)

lemma length_settlements: "length (concat (map settlement ts)) \<le> length ts"
proof (induction ts)
  case Nil show ?case by simp
next
  case (Cons kt ts)
  have "length (settlement kt) \<le> 1"
    by (cases kt rule: settlement.cases) simp_all
  with Cons show ?case by simp
qed

lemma length_settle_order: "length (settle_order ts) \<le> length ts"
  using length_settlements [of ts] by (simp add: settle_order_def)

lemma settlements_fulfilled_count:
  "length (filter (\<lambda>s. \<not> isl (snd (snd s))) (concat (map settlement ts))) =
     length (filter fulfils ts)"
proof (induction ts)
  case Nil show ?case by simp
next
  case (Cons kt ts)
  then show ?case by (cases kt rule: settlement.cases) simp_all
qed

lemma settle_order_fulfilled_count:
  "length (filter (\<lambda>s. \<not> isl (snd (snd s))) (settle_order ts)) = length (filter fulfils ts)"
  using settlements_fulfilled_count [of ts] by (simp add: settle_order_def filter_sort)

lemma settle_order_fulfils:
  "(k, Adopted (FulfilsAt t)) \<in> set ts \<Longrightarrow> (Suc t, k, Inr ()) \<in> set (settle_order ts)"
proof -
  assume "(k, Adopted (FulfilsAt t)) \<in> set ts"
  then have "(Suc t, k, Inr ()) \<in> set (concat (map settlement ts))" by force
  then show ?thesis by (simp add: settle_order_def)
qed

lemma settle_order_rejects:
  "(k, Adopted (RejectsAt t e)) \<in> set ts \<Longrightarrow> (Suc t, k, Inl e) \<in> set (settle_order ts)"
proof -
  assume "(k, Adopted (RejectsAt t e)) \<in> set ts"
  then have "(Suc t, k, Inl e) \<in> set (concat (map settlement ts))" by force
  then show ?thesis by (simp add: settle_order_def)
qed

lemma settle_order_thrown:
  "(k, Threw e) \<in> set ts \<Longrightarrow> (0, k, Inl e) \<in> set (settle_order ts)"
proof -
  assume "(k, Threw e) \<in> set ts"
  then have "(0, k, Inl e) \<in> set (concat (map settlement ts))" by force
  then show ?thesis by (simp add: settle_order_def)
qed

lemma settle_order_rejection_source:
  assumes "(t', k, Inl e) \<in> set (settle_order ts)"
  shows "(k, Threw e) \<in> set ts \<or> (\<exists>t. (k, Adopted (RejectsAt t e)) \<in> set ts)"
proof -
  from assms obtain kt where kt: "kt \<in> set ts" and s: "(t', k, Inl e) \<in> set (settlement kt)"
    by (auto simp add: settle_order_def)
  from s have "kt = (k, Threw e) \<or> (\<exists>t. kt = (k, Adopted (RejectsAt t e)))"
    by (cases kt rule: settlement.cases) auto
  with kt show ?thesis by blast
qed

lemma takeWhile_le_filter: "length (takeWhile P xs) \<le> length (filter P xs)"
  by (induction xs) simp_all

lemma join_fulfilled_iff:
  "fst (snd (promise_all (length ts) (settle_order ts))) = Fulfilled () \<longleftrightarrow>
     (\<forall>kt\<in>set ts. fulfils kt)"
proof
  assume "fst (snd (promise_all (length ts) (settle_order ts))) = Fulfilled ()"
  then have "length ts \<le> length (takeWhile (\<lambda>s. \<not> isl (snd (snd s))) (settle_order ts))"
    by (simp add: promise_all_fulfilled_iff)
  also have "\<dots> \<le> length (filter fulfils ts)"
    using takeWhile_le_filter [of "\<lambda>s. \<not> isl (snd (snd s))" "settle_order ts"]
    by (simp add: settle_order_fulfilled_count)
  finally have "length (filter fulfils ts) = length ts"
    using length_filter_le [of fulfils ts] by simp
  then show "\<forall>kt\<in>set ts. fulfils kt"
    by (metis filter_id_conv length_filter_less less_irrefl_nat)
next
  assume all: "\<forall>kt\<in>set ts. fulfils kt"
  then have "filter fulfils ts = ts" by simp
  then have n: "length (filter (\<lambda>s. \<not> isl (snd (snd s))) (settle_order ts)) = length ts"
    by (simp add: settle_order_fulfilled_count)
  have "filter (\<lambda>s. \<not> isl (snd (snd s))) (settle_order ts) = settle_order ts"
  proof (rule ccontr)
    assume "filter (\<lambda>s. \<not> isl (snd (snd s))) (settle_order ts) \<noteq> settle_order ts"
    then have "length (filter (\<lambda>s. \<not> isl (snd (snd s))) (settle_order ts))
        < length (settle_order ts)"
      by (metis filter_id_conv length_filter_less)
    with n length_settle_order [of ts] show False by simp
  qed
  then have "\<forall>s\<in>set (settle_order ts). \<not> isl (snd (snd s))"
    by (simp add: filter_id_conv)
  then have "takeWhile (\<lambda>s. \<not> isl (snd (snd s))) (settle_order ts) = settle_order ts"
    by (simp add: takeWhile_eq_all_conv)
  moreover have "length (settle_order ts) = length ts"
    using n length_filter_le [of "\<lambda>s. \<not> isl (snd (snd s))" "settle_order ts"]
      length_settle_order [of ts]
    by simp
  ultimately show "fst (snd (promise_all (length ts) (settle_order ts))) = Fulfilled ()"
    by (simp only: promise_all_fulfilled_iff)
qed

lemma join_rejected_iff:
  "(\<exists>e. fst (snd (promise_all (length ts) (settle_order ts))) = Rejected e) \<longleftrightarrow>
     (\<exists>s\<in>set (settle_order ts). isl (snd (snd s)))"
proof
  assume "\<exists>e. fst (snd (promise_all (length ts) (settle_order ts))) = Rejected e"
  then show "\<exists>s\<in>set (settle_order ts). isl (snd (snd s))"
    by (simp add: promise_all_rejected_iff)
next
  assume r: "\<exists>s\<in>set (settle_order ts). isl (snd (snd s))"
  have "\<not> length ts \<le> length (takeWhile (\<lambda>s. \<not> isl (snd (snd s))) (settle_order ts))"
  proof
    assume "length ts \<le> length (takeWhile (\<lambda>s. \<not> isl (snd (snd s))) (settle_order ts))"
    then have "length (settle_order ts)
        \<le> length (takeWhile (\<lambda>s. \<not> isl (snd (snd s))) (settle_order ts))"
      using length_settle_order [of ts] by simp
    then have "takeWhile (\<lambda>s. \<not> isl (snd (snd s))) (settle_order ts) = settle_order ts"
      by (metis length_takeWhile_le le_antisym takeWhile_eq_take take_all_iff order_refl)
    with r show False by (simp add: takeWhile_eq_all_conv)
  qed
  with r show "\<exists>e. fst (snd (promise_all (length ts) (settle_order ts))) = Rejected e"
    by (simp add: promise_all_rejected_iff)
qed

section \<open>A run whose two fetches are fulfilled\<close>

lemma initiateEvaluation_fetched:
  assumes "getScanCollection env (domain (getConfig env d s)) (dateOfScan (getConfig env d s)) = Fulfilled entries"
    and "getDataForDuplicateCheck env (domain (getConfig env d s)) (dateOfScan (getConfig env d s)) = Fulfilled all"
    and "ts = map (\<lambda>en. (fst en, per_url env all (getConfig env d s) en)) entries"
    and "promise_all (length ts) (settle_order ts) = (seen, p, rest)"
  shows "initiateEvaluation env d s =
     ([Call ''getConfig'' [VStr d, VStr s],
       Call ''getScanCollection'' [VStr (domain (getConfig env d s)), VStr (dateOfScan (getConfig env d s))],
       Call ''getDataForDuplicateCheck'' [VStr (domain (getConfig env d s)), VStr (dateOfScan (getConfig env d s))]]
      @ concat (map (\<lambda>en. fst (snd (callback env all en (getConfig env d s)))) entries)
      @ map settle seen
      @ (case p of Pending \<Rightarrow> [] | Rejected e \<Rightarrow> catch_block e | Fulfilled u \<Rightarrow> [Done (Inr ())])
      @ map settle rest, p)"
proof -
  obtain c' t2 promises where m: "map_entries env all entries (getConfig env d s) = (c', t2, promises)"
    by (cases "map_entries env all entries (getConfig env d s)")
  have t2: "t2 = concat (map (\<lambda>en. fst (snd (callback env all en (getConfig env d s)))) entries)"
    using map_entries_events [of env all entries "getConfig env d s"] m by simp
  have pr: "promises = ts"
    using map_entries_tasks [of env all entries "getConfig env d s"] m assms(3) by simp
  have rest: "p = Pending \<Longrightarrow> rest = []"
    using promise_all_pending_rest assms(4) by blast
  show ?thesis
    using rest by (cases p) (simp_all add: initiateEvaluation_def Let_def assms(1,2) m t2 pr assms(4))
qed


section \<open>Bundles and fulfilled runs\<close>







lemma fulfilled_needs_context:
  assumes "getScanCollection env (domain (getConfig env d s)) (dateOfScan (getConfig env d s))
             = Fulfilled entries"
    and "snd (initiateEvaluation env d s) = Fulfilled ()"
  shows "\<exists>all. getDataForDuplicateCheck env (domain (getConfig env d s)) (dateOfScan (getConfig env d s))
             = Fulfilled all"
  using assms
  by (cases "getDataForDuplicateCheck env (domain (getConfig env d s)) (dateOfScan (getConfig env d s))")
     (simp_all add: initiateEvaluation_def Let_def)

lemma fulfilled_run_tasks:
  assumes "getScanCollection env (domain (getConfig env d s)) (dateOfScan (getConfig env d s))
             = Fulfilled entries"
    and "getDataForDuplicateCheck env (domain (getConfig env d s)) (dateOfScan (getConfig env d s))
             = Fulfilled all"
  shows "snd (initiateEvaluation env d s) = Fulfilled () \<longleftrightarrow>
           (\<forall>en\<in>set entries. fulfils (fst en, per_url env all (getConfig env d s) en))"
proof -
  define ts where "ts = map (\<lambda>en. (fst en, per_url env all (getConfig env d s) en)) entries"
  obtain seen p rest where pa: "promise_all (length ts) (settle_order ts) = (seen, p, rest)"
    by (cases "promise_all (length ts) (settle_order ts)")
  have "snd (initiateEvaluation env d s) = p"
    by (simp add: initiateEvaluation_fetched [OF assms ts_def pa])
  moreover have "p = fst (snd (promise_all (length ts) (settle_order ts)))"
    by (simp add: pa)
  ultimately have "snd (initiateEvaluation env d s) = Fulfilled () \<longleftrightarrow> (\<forall>kt\<in>set ts. fulfils kt)"
    by (simp only: join_fulfilled_iff)
  then show ?thesis by (simp add: ts_def)
qed

lemma fulfils_iff: "fulfils (k, t) \<longleftrightarrow> (\<exists>tm. t = Adopted (FulfilsAt tm))"
  by (cases "(k, t)" rule: fulfils.cases) auto

lemma fulfilled_needs_fetches:
  assumes "snd (initiateEvaluation env d s) = Fulfilled ()"
  shows "\<exists>entries all.
      getScanCollection env (domain (getConfig env d s)) (dateOfScan (getConfig env d s))
        = Fulfilled entries
    \<and> getDataForDuplicateCheck env (domain (getConfig env d s)) (dateOfScan (getConfig env d s))
        = Fulfilled all"
proof (cases "getScanCollection env (domain (getConfig env d s)) (dateOfScan (getConfig env d s))")
  case Pending
  with assms show ?thesis by (simp add: initiateEvaluation_def Let_def)
next
  case (Rejected e)
  with assms show ?thesis by (simp add: initiateEvaluation_def Let_def)
next
  case (Fulfilled entries)
  with fulfilled_needs_context [OF Fulfilled assms] show ?thesis by blast
qed

text \<open>
  The promise of a callback, from what the checks and the sink answer.
\<close>

lemma per_url_eq:
  "per_url env all c entry =
     (case snd (collect_issues env all (snd entry)) of
        Inl e \<Rightarrow> Threw e
      | Inr b \<Rightarrow>
          (case updateIssueDocument env (c\<lparr>urlId := Some (fst entry)\<rparr>) b of
             Inl e \<Rightarrow> Threw e
           | Inr p \<Rightarrow> Adopted p))"
  by (cases entry; cases "collect_issues env all (snd entry)")
     (simp add: per_url_def callback_def Let_def split: sum.splits)

lemma per_url_fulfils:
  "(\<exists>t. per_url env all c entry = Adopted (FulfilsAt t)) \<longleftrightarrow>
     (\<exists>b t. snd (collect_issues env all (snd entry)) = Inr b
        \<and> updateIssueDocument env (c\<lparr>urlId := Some (fst entry)\<rparr>) b = Inr (FulfilsAt t))"
  by (auto simp add: per_url_eq split: sum.splits)

lemma per_url_rejects:
  "(\<exists>e. per_url env all c entry = Threw e
       \<or> (\<exists>t. per_url env all c entry = Adopted (RejectsAt t e))) \<longleftrightarrow>
     ((\<exists>e. snd (collect_issues env all (snd entry)) = Inl e)
    \<or> (\<exists>b. snd (collect_issues env all (snd entry)) = Inr b
         \<and> ((\<exists>e. updateIssueDocument env (c\<lparr>urlId := Some (fst entry)\<rparr>) b = Inl e)
            \<or> (\<exists>t e. updateIssueDocument env (c\<lparr>urlId := Some (fst entry)\<rparr>) b
                  = Inr (RejectsAt t e)))))"
  by (auto simp add: per_url_eq split: sum.splits)

lemma per_url_settles:
  "snd (collect_issues env all (snd entry)) = Inr b \<Longrightarrow>
   updateIssueDocument env (c\<lparr>urlId := Some (fst entry)\<rparr>) b = Inr p \<Longrightarrow>
   per_url env all c entry = Adopted p"
  by (simp add: per_url_eq)

lemma join_outcome_tasks:
  assumes "getScanCollection env (domain (getConfig env d s)) (dateOfScan (getConfig env d s))
             = Fulfilled entries"
    and "getDataForDuplicateCheck env (domain (getConfig env d s)) (dateOfScan (getConfig env d s))
             = Fulfilled all"
  shows "(snd (initiateEvaluation env d s) = Fulfilled () \<longleftrightarrow>
            (\<forall>en\<in>set entries. \<exists>t. per_url env all (getConfig env d s) en = Adopted (FulfilsAt t)))
       \<and> (snd (initiateEvaluation env d s) = Fulfilled () \<longrightarrow>
            (\<exists>before. fst (initiateEvaluation env d s) = before @ [Done (Inr ())]
               \<and> (\<forall>en\<in>set entries. Settle (fst en) (Inr ()) \<in> set before)))
       \<and> ((\<exists>e. snd (initiateEvaluation env d s) = Rejected e) \<longleftrightarrow>
            (\<exists>en\<in>set entries. \<exists>e. per_url env all (getConfig env d s) en = Threw e
               \<or> (\<exists>t. per_url env all (getConfig env d s) en = Adopted (RejectsAt t e))))
       \<and> (\<forall>en\<in>set entries. \<forall>t e.
            (per_url env all (getConfig env d s) en = Adopted (FulfilsAt t) \<longrightarrow>
               Settle (fst en) (Inr ()) \<in> set (fst (initiateEvaluation env d s)))
          \<and> (per_url env all (getConfig env d s) en = Adopted (RejectsAt t e) \<longrightarrow>
               Settle (fst en) (Inl e) \<in> set (fst (initiateEvaluation env d s))))"
proof -
  define c where "c = getConfig env d s"
  define ts where "ts = map (\<lambda>en. (fst en, per_url env all (getConfig env d s) en)) entries"
  obtain seen p rest where pa: "promise_all (length ts) (settle_order ts) = (seen, p, rest)"
    by (cases "promise_all (length ts) (settle_order ts)")
  note run = initiateEvaluation_fetched [OF assms ts_def pa]
  have res: "snd (initiateEvaluation env d s) = p" by (simp add: run)
  have p: "p = fst (snd (promise_all (length ts) (settle_order ts)))" by (simp add: pa)
  have split: "seen @ rest = settle_order ts" using promise_all_split [OF pa] .
  have settled: "x \<in> set (settle_order ts) \<Longrightarrow> settle x \<in> set (fst (initiateEvaluation env d s))" for x
  proof -
    assume "x \<in> set (settle_order ts)"
    then have "x \<in> set seen \<or> x \<in> set rest" using split by (metis Un_iff set_append)
    then show ?thesis by (auto simp add: run)
  qed
  have member: "en \<in> set entries \<Longrightarrow> (fst en, per_url env all (getConfig env d s) en) \<in> set ts" for en
    by (simp add: ts_def)
  have one: "snd (initiateEvaluation env d s) = Fulfilled () \<longleftrightarrow>
      (\<forall>en\<in>set entries. \<exists>t. per_url env all (getConfig env d s) en = Adopted (FulfilsAt t))"
    using fulfilled_run_tasks [OF assms] by (simp add: fulfils_iff)
  have two: "snd (initiateEvaluation env d s) = Fulfilled () \<longrightarrow>
      (\<exists>before. fst (initiateEvaluation env d s) = before @ [Done (Inr ())]
         \<and> (\<forall>en\<in>set entries. Settle (fst en) (Inr ()) \<in> set before))"
  proof
    assume f: "snd (initiateEvaluation env d s) = Fulfilled ()"
    then have pf: "p = Fulfilled ()" using res by simp
    have "length seen = length ts" using promise_all_fulfilled_seen pa pf by blast
    then have "rest = []"
      using split length_settle_order [of ts]
      by (metis append_eq_conv_conj le_antisym length_append le_add1 drop_all order_refl)
    then have seen: "seen = settle_order ts" using split by simp
    have tr: "fst (initiateEvaluation env d s) =
        ([Call ''getConfig'' [VStr d, VStr s],
          Call ''getScanCollection'' [VStr (domain (getConfig env d s)), VStr (dateOfScan (getConfig env d s))],
          Call ''getDataForDuplicateCheck'' [VStr (domain (getConfig env d s)), VStr (dateOfScan (getConfig env d s))]]
         @ concat (map (\<lambda>en. fst (snd (callback env all en (getConfig env d s)))) entries)
         @ map settle (settle_order ts)) @ [Done (Inr ())]"
      by (simp add: run pf seen \<open>rest = []\<close>)
    have "\<forall>en\<in>set entries. Settle (fst en) (Inr ()) \<in> set (map settle (settle_order ts))"
    proof
      fix en assume en: "en \<in> set entries"
      with one f obtain t where "per_url env all (getConfig env d s) en = Adopted (FulfilsAt t)"
        by blast
      with member [OF en] have "(fst en, Adopted (FulfilsAt t)) \<in> set ts" by simp
      then have "(Suc t, fst en, Inr ()) \<in> set (settle_order ts)" by (rule settle_order_fulfils)
      then have "settle (Suc t, fst en, Inr ()) \<in> set (map settle (settle_order ts))" by simp
      then show "Settle (fst en) (Inr ()) \<in> set (map settle (settle_order ts))"
        by (simp add: settle_def)
    qed
    with tr show "\<exists>before. fst (initiateEvaluation env d s) = before @ [Done (Inr ())]
         \<and> (\<forall>en\<in>set entries. Settle (fst en) (Inr ()) \<in> set before)"
      by (metis Un_iff set_append)
  qed
  have three: "(\<exists>e. snd (initiateEvaluation env d s) = Rejected e) \<longleftrightarrow>
      (\<exists>en\<in>set entries. \<exists>e. per_url env all (getConfig env d s) en = Threw e
         \<or> (\<exists>t. per_url env all (getConfig env d s) en = Adopted (RejectsAt t e)))"
  proof
    assume "\<exists>e. snd (initiateEvaluation env d s) = Rejected e"
    then have "\<exists>x\<in>set (settle_order ts). isl (snd (snd x))"
      using join_rejected_iff [of ts] res p by simp
    then obtain t' k e where "(t', k, Inl e) \<in> set (settle_order ts)"
      by (metis isl_def prod.collapse)
    then have "(k, Threw e) \<in> set ts \<or> (\<exists>t. (k, Adopted (RejectsAt t e)) \<in> set ts)"
      by (rule settle_order_rejection_source)
    then obtain t where "(k, t) \<in> set ts" and t: "t = Threw e \<or> (\<exists>tm. t = Adopted (RejectsAt tm e))"
      by blast
    then obtain en where "en \<in> set entries" and "per_url env all (getConfig env d s) en = t"
      by (auto simp add: ts_def)
    with t show "\<exists>en\<in>set entries. \<exists>e. per_url env all (getConfig env d s) en = Threw e
         \<or> (\<exists>t. per_url env all (getConfig env d s) en = Adopted (RejectsAt t e))"
      by blast
  next
    assume "\<exists>en\<in>set entries. \<exists>e. per_url env all (getConfig env d s) en = Threw e
         \<or> (\<exists>t. per_url env all (getConfig env d s) en = Adopted (RejectsAt t e))"
    then obtain en e where en: "en \<in> set entries"
      and r: "per_url env all (getConfig env d s) en = Threw e
         \<or> (\<exists>t. per_url env all (getConfig env d s) en = Adopted (RejectsAt t e))" by blast
    have "\<exists>t'. (t', fst en, Inl e) \<in> set (settle_order ts)"
    proof (rule disjE [OF r])
      assume "per_url env all (getConfig env d s) en = Threw e"
      with member [OF en] have "(fst en, Threw e) \<in> set ts" by simp
      from settle_order_thrown [OF this] show ?thesis by blast
    next
      assume "\<exists>t. per_url env all (getConfig env d s) en = Adopted (RejectsAt t e)"
      then obtain t where "per_url env all (getConfig env d s) en = Adopted (RejectsAt t e)"
        by blast
      with member [OF en] have "(fst en, Adopted (RejectsAt t e)) \<in> set ts" by simp
      from settle_order_rejects [OF this] show ?thesis by blast
    qed
    then have "\<exists>x\<in>set (settle_order ts). isl (snd (snd x))" by force
    then show "\<exists>e. snd (initiateEvaluation env d s) = Rejected e"
      using join_rejected_iff [of ts] res p by simp
  qed
  have four: "\<forall>en\<in>set entries. \<forall>t e.
            (per_url env all (getConfig env d s) en = Adopted (FulfilsAt t) \<longrightarrow>
               Settle (fst en) (Inr ()) \<in> set (fst (initiateEvaluation env d s)))
          \<and> (per_url env all (getConfig env d s) en = Adopted (RejectsAt t e) \<longrightarrow>
               Settle (fst en) (Inl e) \<in> set (fst (initiateEvaluation env d s)))"
  proof (intro ballI allI conjI impI)
    fix en t e assume en: "en \<in> set entries"
      and "per_url env all (getConfig env d s) en = Adopted (FulfilsAt t)"
    with member [OF en] have "(Suc t, fst en, Inr ()) \<in> set (settle_order ts)"
      by (auto intro: settle_order_fulfils)
    from settled [OF this] show "Settle (fst en) (Inr ()) \<in> set (fst (initiateEvaluation env d s))"
      by (simp add: settle_def)
  next
    fix en t e assume en: "en \<in> set entries"
      and "per_url env all (getConfig env d s) en = Adopted (RejectsAt t e)"
    with member [OF en] have "(Suc t, fst en, Inl e) \<in> set (settle_order ts)"
      by (auto intro: settle_order_rejects)
    from settled [OF this] show "Settle (fst en) (Inl e) \<in> set (fst (initiateEvaluation env d s))"
      by (simp add: settle_def)
  qed
  from one two three four show ?thesis by blast
qed

text \<open>
  The same, read from the checks and the sink.
\<close>

lemma join_outcome:
  assumes "getScanCollection env (domain (getConfig env d s)) (dateOfScan (getConfig env d s))
             = Fulfilled entries"
    and "getDataForDuplicateCheck env (domain (getConfig env d s)) (dateOfScan (getConfig env d s))
             = Fulfilled all"
  shows "(snd (initiateEvaluation env d s) = Fulfilled () \<longleftrightarrow>
           (\<forall>entry\<in>set entries. \<exists>b t.
              snd (collect_issues env all (snd entry)) = Inr b
            \<and> updateIssueDocument env ((getConfig env d s)\<lparr>urlId := Some (fst entry)\<rparr>) b
                = Inr (FulfilsAt t)))
      \<and> (snd (initiateEvaluation env d s) = Fulfilled () \<longrightarrow>
           (\<exists>before. fst (initiateEvaluation env d s) = before @ [Done (Inr ())]
              \<and> (\<forall>entry\<in>set entries. Settle (fst entry) (Inr ()) \<in> set before)))
      \<and> ((\<exists>e. snd (initiateEvaluation env d s) = Rejected e) \<longleftrightarrow>
           (\<exists>entry\<in>set entries.
              (\<exists>e. snd (collect_issues env all (snd entry)) = Inl e)
            \<or> (\<exists>b. snd (collect_issues env all (snd entry)) = Inr b
                 \<and> ((\<exists>e. updateIssueDocument env
                            ((getConfig env d s)\<lparr>urlId := Some (fst entry)\<rparr>) b = Inl e)
                    \<or> (\<exists>t e. updateIssueDocument env
                            ((getConfig env d s)\<lparr>urlId := Some (fst entry)\<rparr>) b
                          = Inr (RejectsAt t e))))))
      \<and> (\<forall>entry\<in>set entries. \<forall>b t e.
           snd (collect_issues env all (snd entry)) = Inr b \<longrightarrow>
             (updateIssueDocument env ((getConfig env d s)\<lparr>urlId := Some (fst entry)\<rparr>) b
                = Inr (FulfilsAt t) \<longrightarrow>
              Settle (fst entry) (Inr ()) \<in> set (fst (initiateEvaluation env d s)))
           \<and> (updateIssueDocument env ((getConfig env d s)\<lparr>urlId := Some (fst entry)\<rparr>) b
                = Inr (RejectsAt t e) \<longrightarrow>
              Settle (fst entry) (Inl e) \<in> set (fst (initiateEvaluation env d s))))"
proof -
  note tasks = join_outcome_tasks [OF assms]
  have one: "snd (initiateEvaluation env d s) = Fulfilled () \<longleftrightarrow>
           (\<forall>entry\<in>set entries. \<exists>b t.
              snd (collect_issues env all (snd entry)) = Inr b
            \<and> updateIssueDocument env ((getConfig env d s)\<lparr>urlId := Some (fst entry)\<rparr>) b
                = Inr (FulfilsAt t))"
    using tasks by (simp only: per_url_fulfils)
  have two: "snd (initiateEvaluation env d s) = Fulfilled () \<longrightarrow>
           (\<exists>before. fst (initiateEvaluation env d s) = before @ [Done (Inr ())]
              \<and> (\<forall>entry\<in>set entries. Settle (fst entry) (Inr ()) \<in> set before))"
    using tasks by blast
  have three: "(\<exists>e. snd (initiateEvaluation env d s) = Rejected e) \<longleftrightarrow>
           (\<exists>entry\<in>set entries.
              (\<exists>e. snd (collect_issues env all (snd entry)) = Inl e)
            \<or> (\<exists>b. snd (collect_issues env all (snd entry)) = Inr b
                 \<and> ((\<exists>e. updateIssueDocument env
                            ((getConfig env d s)\<lparr>urlId := Some (fst entry)\<rparr>) b = Inl e)
                    \<or> (\<exists>t e. updateIssueDocument env
                            ((getConfig env d s)\<lparr>urlId := Some (fst entry)\<rparr>) b
                          = Inr (RejectsAt t e)))))"
    using tasks by (simp only: per_url_rejects)
  have four: "\<forall>entry\<in>set entries. \<forall>b t e.
           snd (collect_issues env all (snd entry)) = Inr b \<longrightarrow>
             (updateIssueDocument env ((getConfig env d s)\<lparr>urlId := Some (fst entry)\<rparr>) b
                = Inr (FulfilsAt t) \<longrightarrow>
              Settle (fst entry) (Inr ()) \<in> set (fst (initiateEvaluation env d s)))
           \<and> (updateIssueDocument env ((getConfig env d s)\<lparr>urlId := Some (fst entry)\<rparr>) b
                = Inr (RejectsAt t e) \<longrightarrow>
              Settle (fst entry) (Inl e) \<in> set (fst (initiateEvaluation env d s)))"
    using tasks per_url_settles [of env all _ _ "getConfig env d s"] by blast
  from one two three four show ?thesis by blast
qed

section \<open>Where the calls of a run are\<close>

lemma is_check_call_collect:
  "filter is_check_call (fst (collect_issues env all d)) = fst (collect_issues env all d)"
  by (simp add: collect_issues_def Let_def split: sum.splits)

lemma callback_check_calls:
  "filter is_check_call (fst (snd (callback env all en c))) = fst (collect_issues env all (snd en))"
  using is_check_call_collect [of env all "snd en"]
  by (cases en; cases "collect_issues env all (snd en)")
     (simp add: callback_def Let_def split: sum.splits)

lemma no_check_call_settle: "filter is_check_call (map settle ss) = []"
  by (induction ss) (simp_all add: settle_def)

lemma calls_to_empty: "calls_to f evs = [] \<Longrightarrow> Call f args \<notin> set evs"
  by (induction f evs rule: calls_to.induct) (auto split: if_splits)

lemma callback_no_fetch:
  "calls_to ''getDataForDuplicateCheck'' (fst (snd (callback env all en c))) = []"
  by (cases en; cases "collect_issues env all (snd en)")
     (auto simp add: callback_def collect_issues_def Let_def calls_to_append split: sum.splits)

lemma dispatch_no_fetch:
  assumes "getScanCollection env (domain (getConfig env d s)) (dateOfScan (getConfig env d s))
             = Fulfilled entries"
    and "getDataForDuplicateCheck env (domain (getConfig env d s)) (dateOfScan (getConfig env d s))
             = Fulfilled all"
  shows "\<exists>rest. fst (initiateEvaluation env d s) =
           Call ''getConfig'' [VStr d, VStr s]
           # Call ''getScanCollection''
               [VStr (domain (getConfig env d s)), VStr (dateOfScan (getConfig env d s))]
           # Call ''getDataForDuplicateCheck''
               [VStr (domain (getConfig env d s)), VStr (dateOfScan (getConfig env d s))]
           # rest
         \<and> (\<forall>args. Call ''getDataForDuplicateCheck'' args \<notin> set rest)"
proof -
  define ts where "ts = map (\<lambda>en. (fst en, per_url env all (getConfig env d s) en)) entries"
  obtain seen p rest where pa: "promise_all (length ts) (settle_order ts) = (seen, p, rest)"
    by (cases "promise_all (length ts) (settle_order ts)")
  define tl where "tl = concat (map (\<lambda>en. fst (snd (callback env all en (getConfig env d s)))) entries)
      @ map settle seen
      @ (case p of Pending \<Rightarrow> [] | Rejected e \<Rightarrow> catch_block e | Fulfilled u \<Rightarrow> [Done (Inr ())])
      @ map settle rest"
  have ending: "calls_to ''getDataForDuplicateCheck''
      (case p of Pending \<Rightarrow> [] | Rejected e \<Rightarrow> catch_block e | Fulfilled u \<Rightarrow> [Done (Inr ())]) = []"
    by (cases p) (simp_all add: catch_block_def)
  have "calls_to ''getDataForDuplicateCheck'' tl = []"
    by (simp add: tl_def calls_to_append calls_to_concat calls_to_settle ending comp_def
          callback_no_fetch)
  then have "\<forall>args. Call ''getDataForDuplicateCheck'' args \<notin> set tl"
    using calls_to_empty by blast
  moreover have "fst (initiateEvaluation env d s) =
           Call ''getConfig'' [VStr d, VStr s]
           # Call ''getScanCollection''
               [VStr (domain (getConfig env d s)), VStr (dateOfScan (getConfig env d s))]
           # Call ''getDataForDuplicateCheck''
               [VStr (domain (getConfig env d s)), VStr (dateOfScan (getConfig env d s))]
           # tl"
    by (simp add: initiateEvaluation_fetched [OF assms ts_def pa] tl_def)
  ultimately show ?thesis by blast
qed

section \<open>The example run\<close>

lemma example_scan:
  "getScanCollection example_env
       (domain (getConfig example_env ''example.com'' ''2024-01-01''))
       (dateOfScan (getConfig example_env ''example.com'' ''2024-01-01'')) = Fulfilled example_entries"
  by (simp add: example_env_def)

lemma example_context:
  "getDataForDuplicateCheck example_env
       (domain (getConfig example_env ''example.com'' ''2024-01-01''))
       (dateOfScan (getConfig example_env ''example.com'' ''2024-01-01'')) = Fulfilled ''all''"
  by (simp add: example_env_def)

lemma example_run:
  "initiateEvaluation example_env ''example.com'' ''2024-01-01'' =
     ([Call ''getConfig'' [VStr ''example.com'', VStr ''2024-01-01''],
       Call ''getScanCollection'' [VStr ''example.com'', VStr ''2024-01-01''],
       Call ''getDataForDuplicateCheck'' [VStr ''example.com'', VStr ''2024-01-01''],
       Call ''checkMetaData'' [VData ''m1'', VData ''all''],
       Call ''checkBodyData'' [VData ''b1''],
       Call ''checkSocialData'' [VData ''s1''],
       Call ''checkSchemaData'' [VData ''c1''],
       Call ''updateIssueDocument''
         [VConfig \<lparr>domain = ''example.com'', dateOfScan = ''2024-01-01'', urlId = Some ''u1''\<rparr>,
          VIssues [(''meta'', ''m1all''), (''body'', ''b1''), (''social'', ''s1''), (''schema'', ''c1'')]],
       Call ''checkMetaData'' [VData ''m2'', VData ''all''],
       Call ''checkBodyData'' [VData ''b2''],
       Call ''checkSocialData'' [VData ''s2''],
       Call ''checkSchemaData'' [VData ''c2''],
       Call ''updateIssueDocument''
         [VConfig \<lparr>domain = ''example.com'', dateOfScan = ''2024-01-01'', urlId = Some ''u2''\<rparr>,
          VIssues [(''meta'', ''m2all''), (''body'', ''b2''), (''social'', ''s2''), (''schema'', ''c2'')]],
       Settle ''u2'' (Inr ()),
       Settle ''u1'' (Inr ()),
       Done (Inr ())],
      Fulfilled ())"
  by (simp add: initiateEvaluation_def example_env_def example_entries_def callback_def
        collect_issues_def settle_order_def settle_def Let_def)

text \<open>
  A run that is rejected: the error of the callback that threw is the first rejection
  that the join sees; the two sink promises settle after the run has ended.
\<close>

lemma failing_run:
  "initiateEvaluation failing_env ''example.com'' ''2024-01-01'' =
     ([Call ''getConfig'' [VStr ''example.com'', VStr ''2024-01-01''],
       Call ''getScanCollection'' [VStr ''example.com'', VStr ''2024-01-01''],
       Call ''getDataForDuplicateCheck'' [VStr ''example.com'', VStr ''2024-01-01''],
       Call ''checkMetaData'' [VData ''m1'', VData ''all''],
       Call ''checkBodyData'' [VData ''b1''],
       Call ''checkSocialData'' [VData ''s1''],
       Call ''checkSchemaData'' [VData ''c1''],
       Call ''updateIssueDocument''
         [VConfig \<lparr>domain = ''example.com'', dateOfScan = ''2024-01-01'', urlId = Some ''u1''\<rparr>,
          VIssues [(''meta'', ''m1all''), (''body'', ''b1''), (''social'', ''s1''), (''schema'', ''c1'')]],
       Call ''checkMetaData'' [VData ''bad'', VData ''all''],
       Call ''checkMetaData'' [VData ''m3'', VData ''all''],
       Call ''checkBodyData'' [VData ''b3''],
       Call ''checkSocialData'' [VData ''s3''],
       Call ''checkSchemaData'' [VData ''c3''],
       Call ''updateIssueDocument''
         [VConfig \<lparr>domain = ''example.com'', dateOfScan = ''2024-01-01'', urlId = Some ''u3''\<rparr>,
          VIssues [(''meta'', ''m3all''), (''body'', ''b3''), (''social'', ''s3''), (''schema'', ''c3'')]],
       Settle ''u2'' (Inl ''bad meta''),
       Call ''console.error'' [VStr ''Error during evaluation:'', VErr ''bad meta''],
       Done (Inl ''bad meta''),
       Settle ''u3'' (Inl ''sink down''),
       Settle ''u1'' (Inr ())],
      Rejected ''bad meta'')"
  by (simp add: initiateEvaluation_def failing_env_def failing_entries_def callback_def
        collect_issues_def settle_order_def settle_def catch_block_def Let_def)

text \<open>
  With a sink that accepts both submissions that are made, the run is rejected all the
  same, by the check that threw.
\<close>

lemma accepting_sink_run:
  "initiateEvaluation accepting_sink_env ''example.com'' ''2024-01-01'' =
     ([Call ''getConfig'' [VStr ''example.com'', VStr ''2024-01-01''],
       Call ''getScanCollection'' [VStr ''example.com'', VStr ''2024-01-01''],
       Call ''getDataForDuplicateCheck'' [VStr ''example.com'', VStr ''2024-01-01''],
       Call ''checkMetaData'' [VData ''m1'', VData ''all''],
       Call ''checkBodyData'' [VData ''b1''],
       Call ''checkSocialData'' [VData ''s1''],
       Call ''checkSchemaData'' [VData ''c1''],
       Call ''updateIssueDocument''
         [VConfig \<lparr>domain = ''example.com'', dateOfScan = ''2024-01-01'', urlId = Some ''u1''\<rparr>,
          VIssues [(''meta'', ''m1all''), (''body'', ''b1''), (''social'', ''s1''), (''schema'', ''c1'')]],
       Call ''checkMetaData'' [VData ''bad'', VData ''all''],
       Call ''checkMetaData'' [VData ''m3'', VData ''all''],
       Call ''checkBodyData'' [VData ''b3''],
       Call ''checkSocialData'' [VData ''s3''],
       Call ''checkSchemaData'' [VData ''c3''],
       Call ''updateIssueDocument''
         [VConfig \<lparr>domain = ''example.com'', dateOfScan = ''2024-01-01'', urlId = Some ''u3''\<rparr>,
          VIssues [(''meta'', ''m3all''), (''body'', ''b3''), (''social'', ''s3''), (''schema'', ''c3'')]],
       Settle ''u2'' (Inl ''bad meta''),
       Call ''console.error'' [VStr ''Error during evaluation:'', VErr ''bad meta''],
       Done (Inl ''bad meta''),
       Settle ''u1'' (Inr ()),
       Settle ''u3'' (Inr ())],
      Rejected ''bad meta'')"
  by (simp add: initiateEvaluation_def accepting_sink_env_def failing_env_def failing_entries_def
        callback_def collect_issues_def settle_order_def settle_def catch_block_def Let_def)

text \<open>
  Two callbacks that threw: both promises are rejected when the join begins, the join sees
  both before the \<^verbatim>\<open>catch\<close> block runs, and the first in array order gives the error.
\<close>

lemma throwing_run:
  "initiateEvaluation throwing_env ''example.com'' ''2024-01-01'' =
     ([Call ''getConfig'' [VStr ''example.com'', VStr ''2024-01-01''],
       Call ''getScanCollection'' [VStr ''example.com'', VStr ''2024-01-01''],
       Call ''getDataForDuplicateCheck'' [VStr ''example.com'', VStr ''2024-01-01''],
       Call ''checkMetaData'' [VData ''m1'', VData ''all''],
       Call ''checkMetaData'' [VData ''m2'', VData ''all''],
       Settle ''u1'' (Inl ''bad m1''),
       Settle ''u2'' (Inl ''bad m2''),
       Call ''console.error'' [VStr ''Error during evaluation:'', VErr ''bad m1''],
       Done (Inl ''bad m1'')],
      Rejected ''bad m1'')"
  by (simp add: initiateEvaluation_def throwing_env_def example_env_def example_entries_def
        callback_def collect_issues_def settle_order_def settle_def catch_block_def Let_def)

section \<open>Claims about the evaluator\<close>





text \<open>
  C3. If the fetch of the scan result set is rejected, the run is rejected with that
  error, nothing is submitted to the sink and no check is called; the same holds if the
  fetch of the duplicate context, made once the result set is there, is rejected.
\<close>

theorem fetch_failure_aborts:
  assumes "getScanCollection env (domain (getConfig env d s)) (dateOfScan (getConfig env d s))
             = Rejected e
         \<or> (\<exists>entries.
               getScanCollection env (domain (getConfig env d s)) (dateOfScan (getConfig env d s))
                 = Fulfilled entries
             \<and> getDataForDuplicateCheck env (domain (getConfig env d s)) (dateOfScan (getConfig env d s))
                 = Rejected e)"
  shows "snd (initiateEvaluation env d s) = Rejected e
       \<and> submissions (fst (initiateEvaluation env d s)) = []
       \<and> filter is_per_url (fst (initiateEvaluation env d s)) = []"
  using assms
  by (auto simp add: initiateEvaluation_def Let_def catch_block_def submissions_def)

theorem fetch_failure_aborts_witness:
  "getScanCollection unreachable_env
       (domain (getConfig unreachable_env ''example.com'' ''2024-01-01''))
       (dateOfScan (getConfig unreachable_env ''example.com'' ''2024-01-01'')) = Rejected ''unreachable''
   \<and> snd (initiateEvaluation unreachable_env ''example.com'' ''2024-01-01'') = Rejected ''unreachable''
   \<and> filter is_per_url (fst (initiateEvaluation unreachable_env ''example.com'' ''2024-01-01'')) = []
   \<and> getScanCollection malformed_env
       (domain (getConfig malformed_env ''example.com'' ''2024-01-01''))
       (dateOfScan (getConfig malformed_env ''example.com'' ''2024-01-01'')) = Fulfilled example_entries
   \<and> getDataForDuplicateCheck malformed_env
       (domain (getConfig malformed_env ''example.com'' ''2024-01-01''))
       (dateOfScan (getConfig malformed_env ''example.com'' ''2024-01-01'')) = Rejected ''malformed''
   \<and> snd (initiateEvaluation malformed_env ''example.com'' ''2024-01-01'') = Rejected ''malformed''
   \<and> submissions (fst (initiateEvaluation malformed_env ''example.com'' ''2024-01-01'')) = []
   \<and> filter is_per_url (fst (initiateEvaluation malformed_env ''example.com'' ''2024-01-01'')) = []"
proof -
  have a: "getScanCollection unreachable_env
       (domain (getConfig unreachable_env ''example.com'' ''2024-01-01''))
       (dateOfScan (getConfig unreachable_env ''example.com'' ''2024-01-01'')) = Rejected ''unreachable''"
    by (simp add: unreachable_env_def)
  have b: "getScanCollection malformed_env
       (domain (getConfig malformed_env ''example.com'' ''2024-01-01''))
       (dateOfScan (getConfig malformed_env ''example.com'' ''2024-01-01'')) = Fulfilled example_entries"
    by (simp add: malformed_env_def example_env_def)
  have c: "getDataForDuplicateCheck malformed_env
       (domain (getConfig malformed_env ''example.com'' ''2024-01-01''))
       (dateOfScan (getConfig malformed_env ''example.com'' ''2024-01-01'')) = Rejected ''malformed''"
    by (simp add: malformed_env_def)
  have h1: "getScanCollection unreachable_env
        (domain (getConfig unreachable_env ''example.com'' ''2024-01-01''))
        (dateOfScan (getConfig unreachable_env ''example.com'' ''2024-01-01'')) = Rejected ''unreachable''
      \<or> (\<exists>entries. getScanCollection unreachable_env
            (domain (getConfig unreachable_env ''example.com'' ''2024-01-01''))
            (dateOfScan (getConfig unreachable_env ''example.com'' ''2024-01-01'')) = Fulfilled entries
          \<and> getDataForDuplicateCheck unreachable_env
            (domain (getConfig unreachable_env ''example.com'' ''2024-01-01''))
            (dateOfScan (getConfig unreachable_env ''example.com'' ''2024-01-01'')) = Rejected ''unreachable'')"
    using a by blast
  have h2: "getScanCollection malformed_env
        (domain (getConfig malformed_env ''example.com'' ''2024-01-01''))
        (dateOfScan (getConfig malformed_env ''example.com'' ''2024-01-01'')) = Rejected ''malformed''
      \<or> (\<exists>entries. getScanCollection malformed_env
            (domain (getConfig malformed_env ''example.com'' ''2024-01-01''))
            (dateOfScan (getConfig malformed_env ''example.com'' ''2024-01-01'')) = Fulfilled entries
          \<and> getDataForDuplicateCheck malformed_env
            (domain (getConfig malformed_env ''example.com'' ''2024-01-01''))
            (dateOfScan (getConfig malformed_env ''example.com'' ''2024-01-01'')) = Rejected ''malformed'')"
    using b c by blast
  show ?thesis
    using a b c fetch_failure_aborts [OF h1] fetch_failure_aborts [OF h2] by blast
qed

text \<open>
  C4, amended. The calls to the checks in a run are those of the callbacks, entry by
  entry. For a pair \<open>(urlId, urlData)\<close> the callback applies \<^verbatim>\<open>checkMetaData\<close> to
  \<open>urlData.meta\<close> and the duplicate context; then \<^verbatim>\<open>checkBodyData\<close>, \<^verbatim>\<open>checkSocialData\<close> and
  \<^verbatim>\<open>checkSchemaData\<close>, in this order, each to its own slice and nothing else, and each only
  if every check before it returned. What the callback does with the pair is fixed by
  what these applications give: the calls made end with the first check that throws, whose
  error is the callback's, and when all four return their results are the bundle.
\<close>

theorem checks_receive_their_slices:
  "(getScanCollection env (domain (getConfig env d s)) (dateOfScan (getConfig env d s))
        = Fulfilled entries \<longrightarrow>
    getDataForDuplicateCheck env (domain (getConfig env d s)) (dateOfScan (getConfig env d s))
        = Fulfilled all \<longrightarrow>
    filter is_check_call (fst (initiateEvaluation env d s)) =
      concat (map (\<lambda>entry. fst (collect_issues env all (snd entry))) entries))
 \<and> (\<forall>e. checkMetaData env (meta urlData) all = Inl e \<longrightarrow>
        collect_issues env all urlData =
          ([Call ''checkMetaData'' [VData (meta urlData), VData all]], Inl e))
 \<and> (\<forall>r1 e. checkMetaData env (meta urlData) all = Inr r1 \<longrightarrow>
        checkBodyData env (body urlData) = Inl e \<longrightarrow>
        collect_issues env all urlData =
          ([Call ''checkMetaData'' [VData (meta urlData), VData all],
            Call ''checkBodyData'' [VData (body urlData)]], Inl e))
 \<and> (\<forall>r1 r2 e. checkMetaData env (meta urlData) all = Inr r1 \<longrightarrow>
        checkBodyData env (body urlData) = Inr r2 \<longrightarrow>
        checkSocialData env (social urlData) = Inl e \<longrightarrow>
        collect_issues env all urlData =
          ([Call ''checkMetaData'' [VData (meta urlData), VData all],
            Call ''checkBodyData'' [VData (body urlData)],
            Call ''checkSocialData'' [VData (social urlData)]], Inl e))
 \<and> (\<forall>r1 r2 r3 e. checkMetaData env (meta urlData) all = Inr r1 \<longrightarrow>
        checkBodyData env (body urlData) = Inr r2 \<longrightarrow>
        checkSocialData env (social urlData) = Inr r3 \<longrightarrow>
        checkSchemaData env (schema urlData) = Inl e \<longrightarrow>
        collect_issues env all urlData =
          ([Call ''checkMetaData'' [VData (meta urlData), VData all],
            Call ''checkBodyData'' [VData (body urlData)],
            Call ''checkSocialData'' [VData (social urlData)],
            Call ''checkSchemaData'' [VData (schema urlData)]], Inl e))
 \<and> (\<forall>r1 r2 r3 r4. checkMetaData env (meta urlData) all = Inr r1 \<longrightarrow>
        checkBodyData env (body urlData) = Inr r2 \<longrightarrow>
        checkSocialData env (social urlData) = Inr r3 \<longrightarrow>
        checkSchemaData env (schema urlData) = Inr r4 \<longrightarrow>
        collect_issues env all urlData =
          ([Call ''checkMetaData'' [VData (meta urlData), VData all],
            Call ''checkBodyData'' [VData (body urlData)],
            Call ''checkSocialData'' [VData (social urlData)],
            Call ''checkSchemaData'' [VData (schema urlData)]],
           Inr [(''meta'', r1), (''body'', r2), (''social'', r3), (''schema'', r4)]))"
proof -
  have run: "filter is_check_call (fst (initiateEvaluation env d s)) =
      concat (map (\<lambda>entry. fst (collect_issues env all (snd entry))) entries)"
    if scan: "getScanCollection env (domain (getConfig env d s)) (dateOfScan (getConfig env d s))
        = Fulfilled entries"
    and dup: "getDataForDuplicateCheck env (domain (getConfig env d s))
        (dateOfScan (getConfig env d s)) = Fulfilled all"
  proof -
    define ts where "ts = map (\<lambda>en. (fst en, per_url env all (getConfig env d s) en)) entries"
    obtain seen p rest where pa: "promise_all (length ts) (settle_order ts) = (seen, p, rest)"
      by (cases "promise_all (length ts) (settle_order ts)")
    have ending: "filter is_check_call
        (case p of Pending \<Rightarrow> [] | Rejected e \<Rightarrow> catch_block e | Fulfilled u \<Rightarrow> [Done (Inr ())]) = []"
      by (cases p) (simp_all add: catch_block_def)
    show ?thesis
      by (simp add: initiateEvaluation_fetched [OF scan dup ts_def pa] no_check_call_settle ending
          filter_concat comp_def callback_check_calls)
  qed
  have each: "(\<forall>e. checkMetaData env (meta urlData) all = Inl e \<longrightarrow>
        collect_issues env all urlData =
          ([Call ''checkMetaData'' [VData (meta urlData), VData all]], Inl e))
   \<and> (\<forall>r1 e. checkMetaData env (meta urlData) all = Inr r1 \<longrightarrow>
        checkBodyData env (body urlData) = Inl e \<longrightarrow>
        collect_issues env all urlData =
          ([Call ''checkMetaData'' [VData (meta urlData), VData all],
            Call ''checkBodyData'' [VData (body urlData)]], Inl e))
   \<and> (\<forall>r1 r2 e. checkMetaData env (meta urlData) all = Inr r1 \<longrightarrow>
        checkBodyData env (body urlData) = Inr r2 \<longrightarrow>
        checkSocialData env (social urlData) = Inl e \<longrightarrow>
        collect_issues env all urlData =
          ([Call ''checkMetaData'' [VData (meta urlData), VData all],
            Call ''checkBodyData'' [VData (body urlData)],
            Call ''checkSocialData'' [VData (social urlData)]], Inl e))
   \<and> (\<forall>r1 r2 r3 e. checkMetaData env (meta urlData) all = Inr r1 \<longrightarrow>
        checkBodyData env (body urlData) = Inr r2 \<longrightarrow>
        checkSocialData env (social urlData) = Inr r3 \<longrightarrow>
        checkSchemaData env (schema urlData) = Inl e \<longrightarrow>
        collect_issues env all urlData =
          ([Call ''checkMetaData'' [VData (meta urlData), VData all],
            Call ''checkBodyData'' [VData (body urlData)],
            Call ''checkSocialData'' [VData (social urlData)],
            Call ''checkSchemaData'' [VData (schema urlData)]], Inl e))
   \<and> (\<forall>r1 r2 r3 r4. checkMetaData env (meta urlData) all = Inr r1 \<longrightarrow>
        checkBodyData env (body urlData) = Inr r2 \<longrightarrow>
        checkSocialData env (social urlData) = Inr r3 \<longrightarrow>
        checkSchemaData env (schema urlData) = Inr r4 \<longrightarrow>
        collect_issues env all urlData =
          ([Call ''checkMetaData'' [VData (meta urlData), VData all],
            Call ''checkBodyData'' [VData (body urlData)],
            Call ''checkSocialData'' [VData (social urlData)],
            Call ''checkSchemaData'' [VData (schema urlData)]],
           Inr [(''meta'', r1), (''body'', r2), (''social'', r3), (''schema'', r4)]))"
    by (simp add: collect_issues_def Let_def)
  from run each show ?thesis by blast
qed

theorem checks_receive_their_slices_witness:
  "getScanCollection failing_env
       (domain (getConfig failing_env ''example.com'' ''2024-01-01''))
       (dateOfScan (getConfig failing_env ''example.com'' ''2024-01-01'')) = Fulfilled failing_entries
   \<and> getDataForDuplicateCheck failing_env
       (domain (getConfig failing_env ''example.com'' ''2024-01-01''))
       (dateOfScan (getConfig failing_env ''example.com'' ''2024-01-01'')) = Fulfilled ''all''
   \<and> checkMetaData failing_env ''bad'' ''all'' = Inl ''bad meta''
   \<and> collect_issues failing_env ''all''
         \<lparr>meta = ''bad'', body = ''b2'', social = ''s2'', schema = ''c2''\<rparr> =
       ([Call ''checkMetaData'' [VData ''bad'', VData ''all'']], Inl ''bad meta'')
   \<and> checkMetaData failing_env ''m1'' ''all'' = Inr ''m1all''
   \<and> checkBodyData failing_env ''b1'' = Inr ''b1''
   \<and> checkSocialData failing_env ''s1'' = Inr ''s1''
   \<and> checkSchemaData failing_env ''c1'' = Inr ''c1''
   \<and> collect_issues failing_env ''all''
         \<lparr>meta = ''m1'', body = ''b1'', social = ''s1'', schema = ''c1''\<rparr> =
       ([Call ''checkMetaData'' [VData ''m1'', VData ''all''],
         Call ''checkBodyData'' [VData ''b1''],
         Call ''checkSocialData'' [VData ''s1''],
         Call ''checkSchemaData'' [VData ''c1'']],
        Inr [(''meta'', ''m1all''), (''body'', ''b1''), (''social'', ''s1''), (''schema'', ''c1'')])
   \<and> filter is_check_call (fst (initiateEvaluation failing_env ''example.com'' ''2024-01-01'')) =
       concat (map (\<lambda>entry. fst (collect_issues failing_env ''all'' (snd entry))) failing_entries)"
proof -
  have h1: "getScanCollection failing_env
       (domain (getConfig failing_env ''example.com'' ''2024-01-01''))
       (dateOfScan (getConfig failing_env ''example.com'' ''2024-01-01'')) = Fulfilled failing_entries"
    by (simp add: failing_env_def)
  have h2: "getDataForDuplicateCheck failing_env
       (domain (getConfig failing_env ''example.com'' ''2024-01-01''))
       (dateOfScan (getConfig failing_env ''example.com'' ''2024-01-01'')) = Fulfilled ''all''"
    by (simp add: failing_env_def)
  have m2: "checkMetaData failing_env ''bad'' ''all'' = Inl ''bad meta''"
    by (simp add: failing_env_def)
  have m1: "checkMetaData failing_env ''m1'' ''all'' = Inr ''m1all''"
    by (simp add: failing_env_def)
  have b1: "checkBodyData failing_env ''b1'' = Inr ''b1''"
    by (simp add: failing_env_def)
  have s1: "checkSocialData failing_env ''s1'' = Inr ''s1''"
    by (simp add: failing_env_def)
  have c1: "checkSchemaData failing_env ''c1'' = Inr ''c1''"
    by (simp add: failing_env_def)
  show ?thesis
    using h1 h2 m2 m1 b1 s1 c1
      checks_receive_their_slices [of failing_env "''example.com''" "''2024-01-01''"
        failing_entries "''all''" "\<lparr>meta = ''bad'', body = ''b2'', social = ''s2'', schema = ''c2''\<rparr>"]
      checks_receive_their_slices [of failing_env "''example.com''" "''2024-01-01''"
        failing_entries "''all''" "\<lparr>meta = ''m1'', body = ''b1'', social = ''s1'', schema = ''c1''\<rparr>"]
    by simp
qed

text \<open>
  As it is stated, C4 has all four checks called for every pair. In the scan of three
  URLs the metadata check throws on the second pair, and the run makes no call to the
  body, social or schema check with a slice of that pair.
\<close>

theorem checks_receive_their_slices_counterexample:
  "getScanCollection failing_env
       (domain (getConfig failing_env ''example.com'' ''2024-01-01''))
       (dateOfScan (getConfig failing_env ''example.com'' ''2024-01-01'')) = Fulfilled failing_entries
   \<and> (''u2'', \<lparr>meta = ''bad'', body = ''b2'', social = ''s2'', schema = ''c2''\<rparr>)
         \<in> set failing_entries
   \<and> calls_to ''checkMetaData'' (fst (initiateEvaluation failing_env ''example.com'' ''2024-01-01''))
       = [[VData ''m1'', VData ''all''], [VData ''bad'', VData ''all''], [VData ''m3'', VData ''all'']]
   \<and> calls_to ''checkBodyData'' (fst (initiateEvaluation failing_env ''example.com'' ''2024-01-01''))
       = [[VData ''b1''], [VData ''b3'']]
   \<and> calls_to ''checkSocialData'' (fst (initiateEvaluation failing_env ''example.com'' ''2024-01-01''))
       = [[VData ''s1''], [VData ''s3'']]
   \<and> calls_to ''checkSchemaData'' (fst (initiateEvaluation failing_env ''example.com'' ''2024-01-01''))
       = [[VData ''c1''], [VData ''c3'']]"
  by (simp add: failing_run) (simp add: failing_env_def failing_entries_def)

text \<open>
  C5, amended. The run is fulfilled exactly when both fetches are fulfilled and, for
  every entry, the four checks return and the sink, given the configuration with the key
  of the entry and the bundle, returns a promise that is fulfilled. Once both fetches are
  fulfilled: in a fulfilled run the settlement of every callback comes before the end of
  the run in the trace; the run is rejected exactly when, for some entry, a check throws,
  the sink throws or the sink's promise is rejected; and whatever the outcome of the
  run, the settlement of every sink promise that settles is in the trace: nothing cancels
  it.
\<close>

theorem join_waits_and_fails_fast:
  "(snd (initiateEvaluation env d s) = Fulfilled () \<longleftrightarrow>
      (\<exists>entries all.
         getScanCollection env (domain (getConfig env d s)) (dateOfScan (getConfig env d s))
           = Fulfilled entries
       \<and> getDataForDuplicateCheck env (domain (getConfig env d s)) (dateOfScan (getConfig env d s))
           = Fulfilled all
       \<and> (\<forall>entry\<in>set entries. \<exists>b t.
             snd (collect_issues env all (snd entry)) = Inr b
           \<and> updateIssueDocument env ((getConfig env d s)\<lparr>urlId := Some (fst entry)\<rparr>) b
               = Inr (FulfilsAt t))))
 \<and> (\<forall>entries all.
      getScanCollection env (domain (getConfig env d s)) (dateOfScan (getConfig env d s))
        = Fulfilled entries \<longrightarrow>
      getDataForDuplicateCheck env (domain (getConfig env d s)) (dateOfScan (getConfig env d s))
        = Fulfilled all \<longrightarrow>
        (snd (initiateEvaluation env d s) = Fulfilled () \<longrightarrow>
           (\<exists>before. fst (initiateEvaluation env d s) = before @ [Done (Inr ())]
              \<and> (\<forall>entry\<in>set entries. Settle (fst entry) (Inr ()) \<in> set before)))
      \<and> ((\<exists>e. snd (initiateEvaluation env d s) = Rejected e) \<longleftrightarrow>
           (\<exists>entry\<in>set entries.
              (\<exists>e. snd (collect_issues env all (snd entry)) = Inl e)
            \<or> (\<exists>b. snd (collect_issues env all (snd entry)) = Inr b
                 \<and> ((\<exists>e. updateIssueDocument env ((getConfig env d s)\<lparr>urlId := Some (fst entry)\<rparr>) b
                          = Inl e)
                    \<or> (\<exists>t e. updateIssueDocument env ((getConfig env d s)\<lparr>urlId := Some (fst entry)\<rparr>) b
                          = Inr (RejectsAt t e))))))
      \<and> (\<forall>entry\<in>set entries. \<forall>b t e.
           snd (collect_issues env all (snd entry)) = Inr b \<longrightarrow>
             (updateIssueDocument env ((getConfig env d s)\<lparr>urlId := Some (fst entry)\<rparr>) b
                = Inr (FulfilsAt t) \<longrightarrow>
              Settle (fst entry) (Inr ()) \<in> set (fst (initiateEvaluation env d s)))
           \<and> (updateIssueDocument env ((getConfig env d s)\<lparr>urlId := Some (fst entry)\<rparr>) b
                = Inr (RejectsAt t e) \<longrightarrow>
              Settle (fst entry) (Inl e) \<in> set (fst (initiateEvaluation env d s)))))"
proof -
  have one: "snd (initiateEvaluation env d s) = Fulfilled () \<longleftrightarrow>
      (\<exists>entries all.
         getScanCollection env (domain (getConfig env d s)) (dateOfScan (getConfig env d s))
           = Fulfilled entries
       \<and> getDataForDuplicateCheck env (domain (getConfig env d s)) (dateOfScan (getConfig env d s))
           = Fulfilled all
       \<and> (\<forall>entry\<in>set entries. \<exists>b t.
             snd (collect_issues env all (snd entry)) = Inr b
           \<and> updateIssueDocument env ((getConfig env d s)\<lparr>urlId := Some (fst entry)\<rparr>) b
               = Inr (FulfilsAt t)))"
  proof
    assume f: "snd (initiateEvaluation env d s) = Fulfilled ()"
    from fulfilled_needs_fetches [OF f] obtain entries all where
      scan: "getScanCollection env (domain (getConfig env d s)) (dateOfScan (getConfig env d s))
           = Fulfilled entries"
      and dup: "getDataForDuplicateCheck env (domain (getConfig env d s))
           (dateOfScan (getConfig env d s)) = Fulfilled all" by blast
    from join_outcome [OF scan dup] f scan dup show "\<exists>entries all.
         getScanCollection env (domain (getConfig env d s)) (dateOfScan (getConfig env d s))
           = Fulfilled entries
       \<and> getDataForDuplicateCheck env (domain (getConfig env d s)) (dateOfScan (getConfig env d s))
           = Fulfilled all
       \<and> (\<forall>entry\<in>set entries. \<exists>b t.
             snd (collect_issues env all (snd entry)) = Inr b
           \<and> updateIssueDocument env ((getConfig env d s)\<lparr>urlId := Some (fst entry)\<rparr>) b
               = Inr (FulfilsAt t))"
      by blast
  next
    assume "\<exists>entries all.
         getScanCollection env (domain (getConfig env d s)) (dateOfScan (getConfig env d s))
           = Fulfilled entries
       \<and> getDataForDuplicateCheck env (domain (getConfig env d s)) (dateOfScan (getConfig env d s))
           = Fulfilled all
       \<and> (\<forall>entry\<in>set entries. \<exists>b t.
             snd (collect_issues env all (snd entry)) = Inr b
           \<and> updateIssueDocument env ((getConfig env d s)\<lparr>urlId := Some (fst entry)\<rparr>) b
               = Inr (FulfilsAt t))"
    then obtain entries all where
      scan: "getScanCollection env (domain (getConfig env d s)) (dateOfScan (getConfig env d s))
           = Fulfilled entries"
      and dup: "getDataForDuplicateCheck env (domain (getConfig env d s))
           (dateOfScan (getConfig env d s)) = Fulfilled all"
      and ok: "\<forall>entry\<in>set entries. \<exists>b t.
             snd (collect_issues env all (snd entry)) = Inr b
           \<and> updateIssueDocument env ((getConfig env d s)\<lparr>urlId := Some (fst entry)\<rparr>) b
               = Inr (FulfilsAt t)" by blast
    from join_outcome [OF scan dup] ok show "snd (initiateEvaluation env d s) = Fulfilled ()"
      by blast
  qed
  from one join_outcome [of env d s] show ?thesis by blast
qed

theorem join_waits_and_fails_fast_witness:
  "getScanCollection failing_env
       (domain (getConfig failing_env ''example.com'' ''2024-01-01''))
       (dateOfScan (getConfig failing_env ''example.com'' ''2024-01-01'')) = Fulfilled failing_entries
   \<and> getDataForDuplicateCheck failing_env
       (domain (getConfig failing_env ''example.com'' ''2024-01-01''))
       (dateOfScan (getConfig failing_env ''example.com'' ''2024-01-01'')) = Fulfilled ''all''
   \<and> (''u1'', \<lparr>meta = ''m1'', body = ''b1'', social = ''s1'', schema = ''c1''\<rparr>) \<in> set failing_entries
   \<and> (''u3'', \<lparr>meta = ''m3'', body = ''b3'', social = ''s3'', schema = ''c3''\<rparr>) \<in> set failing_entries
   \<and> snd (collect_issues failing_env ''all''
         \<lparr>meta = ''m1'', body = ''b1'', social = ''s1'', schema = ''c1''\<rparr>) =
       Inr [(''meta'', ''m1all''), (''body'', ''b1''), (''social'', ''s1''), (''schema'', ''c1'')]
   \<and> updateIssueDocument failing_env
         \<lparr>domain = ''example.com'', dateOfScan = ''2024-01-01'', urlId = Some ''u1''\<rparr>
         [(''meta'', ''m1all''), (''body'', ''b1''), (''social'', ''s1''), (''schema'', ''c1'')]
       = Inr (FulfilsAt 7)
   \<and> snd (collect_issues failing_env ''all''
         \<lparr>meta = ''m3'', body = ''b3'', social = ''s3'', schema = ''c3''\<rparr>) =
       Inr [(''meta'', ''m3all''), (''body'', ''b3''), (''social'', ''s3''), (''schema'', ''c3'')]
   \<and> updateIssueDocument failing_env
         \<lparr>domain = ''example.com'', dateOfScan = ''2024-01-01'', urlId = Some ''u3''\<rparr>
         [(''meta'', ''m3all''), (''body'', ''b3''), (''social'', ''s3''), (''schema'', ''c3'')]
       = Inr (RejectsAt 3 ''sink down'')
   \<and> snd (initiateEvaluation failing_env ''example.com'' ''2024-01-01'') \<noteq> Fulfilled ()
   \<and> Settle ''u1'' (Inr ()) \<in> set (fst (initiateEvaluation failing_env ''example.com'' ''2024-01-01''))
   \<and> Settle ''u3'' (Inl ''sink down'')
         \<in> set (fst (initiateEvaluation failing_env ''example.com'' ''2024-01-01''))
   \<and> getScanCollection example_env
       (domain (getConfig example_env ''example.com'' ''2024-01-01''))
       (dateOfScan (getConfig example_env ''example.com'' ''2024-01-01'')) = Fulfilled example_entries
   \<and> getDataForDuplicateCheck example_env
       (domain (getConfig example_env ''example.com'' ''2024-01-01''))
       (dateOfScan (getConfig example_env ''example.com'' ''2024-01-01'')) = Fulfilled ''all''
   \<and> snd (initiateEvaluation example_env ''example.com'' ''2024-01-01'') = Fulfilled ()"
proof -
  have f1: "getScanCollection failing_env
       (domain (getConfig failing_env ''example.com'' ''2024-01-01''))
       (dateOfScan (getConfig failing_env ''example.com'' ''2024-01-01'')) = Fulfilled failing_entries"
    by (simp add: failing_env_def)
  have f2: "getDataForDuplicateCheck failing_env
       (domain (getConfig failing_env ''example.com'' ''2024-01-01''))
       (dateOfScan (getConfig failing_env ''example.com'' ''2024-01-01'')) = Fulfilled ''all''"
    by (simp add: failing_env_def)
  have cfg: "getConfig failing_env ''example.com'' ''2024-01-01'' =
      \<lparr>domain = ''example.com'', dateOfScan = ''2024-01-01'', urlId = None\<rparr>"
    by (simp add: failing_env_def)
  have m1: "(''u1'', \<lparr>meta = ''m1'', body = ''b1'', social = ''s1'', schema = ''c1''\<rparr>)
      \<in> set failing_entries"
    by (simp add: failing_entries_def)
  have m3: "(''u3'', \<lparr>meta = ''m3'', body = ''b3'', social = ''s3'', schema = ''c3''\<rparr>)
      \<in> set failing_entries"
    by (simp add: failing_entries_def)
  have b1: "snd (collect_issues failing_env ''all''
         \<lparr>meta = ''m1'', body = ''b1'', social = ''s1'', schema = ''c1''\<rparr>) =
       Inr [(''meta'', ''m1all''), (''body'', ''b1''), (''social'', ''s1''), (''schema'', ''c1'')]"
    by (simp add: collect_issues_def failing_env_def)
  have b3: "snd (collect_issues failing_env ''all''
         \<lparr>meta = ''m3'', body = ''b3'', social = ''s3'', schema = ''c3''\<rparr>) =
       Inr [(''meta'', ''m3all''), (''body'', ''b3''), (''social'', ''s3''), (''schema'', ''c3'')]"
    by (simp add: collect_issues_def failing_env_def)
  have u1: "updateIssueDocument failing_env
         \<lparr>domain = ''example.com'', dateOfScan = ''2024-01-01'', urlId = Some ''u1''\<rparr>
         [(''meta'', ''m1all''), (''body'', ''b1''), (''social'', ''s1''), (''schema'', ''c1'')]
       = Inr (FulfilsAt 7)"
    by (simp add: failing_env_def)
  have u3: "updateIssueDocument failing_env
         \<lparr>domain = ''example.com'', dateOfScan = ''2024-01-01'', urlId = Some ''u3''\<rparr>
         [(''meta'', ''m3all''), (''body'', ''b3''), (''social'', ''s3''), (''schema'', ''c3'')]
       = Inr (RejectsAt 3 ''sink down'')"
    by (simp add: failing_env_def)
  note T = join_waits_and_fails_fast [of failing_env "''example.com''" "''2024-01-01''"]
  from T f1 f2 have parts:
    "((\<exists>e. snd (initiateEvaluation failing_env ''example.com'' ''2024-01-01'') = Rejected e) \<longleftrightarrow>
       (\<exists>entry\<in>set failing_entries.
          (\<exists>e. snd (collect_issues failing_env ''all'' (snd entry)) = Inl e)
        \<or> (\<exists>b. snd (collect_issues failing_env ''all'' (snd entry)) = Inr b
             \<and> ((\<exists>e. updateIssueDocument failing_env
                    ((getConfig failing_env ''example.com'' ''2024-01-01'')\<lparr>urlId := Some (fst entry)\<rparr>) b
                      = Inl e)
                \<or> (\<exists>t e. updateIssueDocument failing_env
                    ((getConfig failing_env ''example.com'' ''2024-01-01'')\<lparr>urlId := Some (fst entry)\<rparr>) b
                      = Inr (RejectsAt t e))))))
   \<and> (\<forall>entry\<in>set failing_entries. \<forall>b t e.
         snd (collect_issues failing_env ''all'' (snd entry)) = Inr b \<longrightarrow>
           (updateIssueDocument failing_env
              ((getConfig failing_env ''example.com'' ''2024-01-01'')\<lparr>urlId := Some (fst entry)\<rparr>) b
                = Inr (FulfilsAt t) \<longrightarrow>
            Settle (fst entry) (Inr ())
              \<in> set (fst (initiateEvaluation failing_env ''example.com'' ''2024-01-01'')))
         \<and> (updateIssueDocument failing_env
              ((getConfig failing_env ''example.com'' ''2024-01-01'')\<lparr>urlId := Some (fst entry)\<rparr>) b
                = Inr (RejectsAt t e) \<longrightarrow>
            Settle (fst entry) (Inl e)
              \<in> set (fst (initiateEvaluation failing_env ''example.com'' ''2024-01-01''))))"
    by blast
  from parts m3 b3 u3 have rej: "\<exists>e. snd (initiateEvaluation failing_env ''example.com'' ''2024-01-01'')
      = Rejected e"
    by (simp add: cfg) (metis fst_conv snd_conv)
  from parts m1 b1 u1 have s1: "Settle ''u1'' (Inr ())
      \<in> set (fst (initiateEvaluation failing_env ''example.com'' ''2024-01-01''))"
    by (simp add: cfg) (metis fst_conv snd_conv)
  from parts m3 b3 u3 have s3: "Settle ''u3'' (Inl ''sink down'')
      \<in> set (fst (initiateEvaluation failing_env ''example.com'' ''2024-01-01''))"
    by (simp add: cfg) (metis fst_conv snd_conv)
  from rej have nf: "snd (initiateEvaluation failing_env ''example.com'' ''2024-01-01'') \<noteq> Fulfilled ()"
    by auto
  have "\<forall>entry\<in>set example_entries. \<exists>b t.
      snd (collect_issues example_env ''all'' (snd entry)) = Inr b
    \<and> updateIssueDocument example_env
          ((getConfig example_env ''example.com'' ''2024-01-01'')\<lparr>urlId := Some (fst entry)\<rparr>) b
        = Inr (FulfilsAt t)"
    by (simp add: example_entries_def collect_issues_def example_env_def)
  with example_scan example_context
    join_waits_and_fails_fast [of example_env "''example.com''" "''2024-01-01''"]
  have good: "snd (initiateEvaluation example_env ''example.com'' ''2024-01-01'') = Fulfilled ()"
    by blast
  from f1 f2 m1 m3 b1 u1 b3 u3 nf s1 s3 example_scan example_context good
  show ?thesis by blast
qed

text \<open>
  As it is stated, C5 makes the success of the sink submissions enough for the run to
  resolve. In the scan of three URLs with the accepting sink, the two submissions that
  are made both succeed, and the run is rejected by the metadata check that threw on the
  second URL.
\<close>

theorem join_waits_and_fails_fast_counterexample:
  "submissions (fst (initiateEvaluation accepting_sink_env ''example.com'' ''2024-01-01'')) =
     [(\<lparr>domain = ''example.com'', dateOfScan = ''2024-01-01'', urlId = Some ''u1''\<rparr>,
       [(''meta'', ''m1all''), (''body'', ''b1''), (''social'', ''s1''), (''schema'', ''c1'')]),
      (\<lparr>domain = ''example.com'', dateOfScan = ''2024-01-01'', urlId = Some ''u3''\<rparr>,
       [(''meta'', ''m3all''), (''body'', ''b3''), (''social'', ''s3''), (''schema'', ''c3'')])]
   \<and> updateIssueDocument accepting_sink_env
         \<lparr>domain = ''example.com'', dateOfScan = ''2024-01-01'', urlId = Some ''u1''\<rparr>
         [(''meta'', ''m1all''), (''body'', ''b1''), (''social'', ''s1''), (''schema'', ''c1'')]
       = Inr (FulfilsAt 1)
   \<and> updateIssueDocument accepting_sink_env
         \<lparr>domain = ''example.com'', dateOfScan = ''2024-01-01'', urlId = Some ''u3''\<rparr>
         [(''meta'', ''m3all''), (''body'', ''b3''), (''social'', ''s3''), (''schema'', ''c3'')]
       = Inr (FulfilsAt 1)
   \<and> Settle ''u1'' (Inr ())
         \<in> set (fst (initiateEvaluation accepting_sink_env ''example.com'' ''2024-01-01''))
   \<and> Settle ''u3'' (Inr ())
         \<in> set (fst (initiateEvaluation accepting_sink_env ''example.com'' ''2024-01-01''))
   \<and> snd (initiateEvaluation accepting_sink_env ''example.com'' ''2024-01-01'') = Rejected ''bad meta''
   \<and> snd (initiateEvaluation accepting_sink_env ''example.com'' ''2024-01-01'') \<noteq> Fulfilled ()"
  by (simp add: accepting_sink_run submissions_def) (simp add: accepting_sink_env_def)

text \<open>
  C6. In every run, a call to \<^verbatim>\<open>getDataForDuplicateCheck\<close> is the event at position 2,
  directly after the call to \<^verbatim>\<open>getScanCollection\<close>, and it is there only if the scan
  result set was fulfilled. A call to a check or to the sink is at position 3 or later,
  after both calls, and it is there only if both fetches were fulfilled.
\<close>

theorem fetches_precede_per_url_work:
  "(\<forall>i<length (fst (initiateEvaluation env d s)). \<forall>args.
      fst (initiateEvaluation env d s) ! i = Call ''getDataForDuplicateCheck'' args \<longrightarrow>
        i = 2
      \<and> fst (initiateEvaluation env d s) ! 1 =
          Call ''getScanCollection''
            [VStr (domain (getConfig env d s)), VStr (dateOfScan (getConfig env d s))]
      \<and> (\<exists>entries.
            getScanCollection env (domain (getConfig env d s)) (dateOfScan (getConfig env d s))
              = Fulfilled entries))
 \<and> (\<forall>i<length (fst (initiateEvaluation env d s)).
      is_per_url (fst (initiateEvaluation env d s) ! i) \<longrightarrow>
        3 \<le> i
      \<and> fst (initiateEvaluation env d s) ! 1 =
          Call ''getScanCollection''
            [VStr (domain (getConfig env d s)), VStr (dateOfScan (getConfig env d s))]
      \<and> fst (initiateEvaluation env d s) ! 2 =
          Call ''getDataForDuplicateCheck''
            [VStr (domain (getConfig env d s)), VStr (dateOfScan (getConfig env d s))]
      \<and> (\<exists>entries.
            getScanCollection env (domain (getConfig env d s)) (dateOfScan (getConfig env d s))
              = Fulfilled entries)
      \<and> (\<exists>all.
            getDataForDuplicateCheck env (domain (getConfig env d s)) (dateOfScan (getConfig env d s))
              = Fulfilled all))"
proof (cases "getScanCollection env (domain (getConfig env d s)) (dateOfScan (getConfig env d s))")
  case Pending
  then show ?thesis
    by (simp add: initiateEvaluation_def Let_def All_less_Suc2)
next
  case (Rejected e)
  then show ?thesis
    by (simp add: initiateEvaluation_def Let_def catch_block_def All_less_Suc2)
next
  case (Fulfilled entries)
  note scan = this
  show ?thesis
  proof (cases "getDataForDuplicateCheck env (domain (getConfig env d s)) (dateOfScan (getConfig env d s))")
    case Pending
    then show ?thesis
      using scan by (simp add: initiateEvaluation_def Let_def All_less_Suc2)
  next
    case (Rejected e)
    then show ?thesis
      using scan by (simp add: initiateEvaluation_def Let_def catch_block_def All_less_Suc2)
  next
    case (Fulfilled all)
    from dispatch_no_fetch [OF scan Fulfilled] obtain rest where
      tr: "fst (initiateEvaluation env d s) =
           Call ''getConfig'' [VStr d, VStr s]
           # Call ''getScanCollection''
               [VStr (domain (getConfig env d s)), VStr (dateOfScan (getConfig env d s))]
           # Call ''getDataForDuplicateCheck''
               [VStr (domain (getConfig env d s)), VStr (dateOfScan (getConfig env d s))]
           # rest"
      and no: "\<forall>args. Call ''getDataForDuplicateCheck'' args \<notin> set rest" by blast
    have "\<forall>i<length rest. \<forall>args. rest ! i \<noteq> Call ''getDataForDuplicateCheck'' args"
      using no by (metis nth_mem)
    then show ?thesis
      using scan Fulfilled by (simp add: tr All_less_Suc2)
  qed
qed

theorem fetches_precede_per_url_work_witness:
  "fst (initiateEvaluation example_env ''example.com'' ''2024-01-01'') ! 2 =
     Call ''getDataForDuplicateCheck'' [VStr ''example.com'', VStr ''2024-01-01'']
   \<and> is_per_url (fst (initiateEvaluation example_env ''example.com'' ''2024-01-01'') ! 3)
   \<and> fst (initiateEvaluation example_env ''example.com'' ''2024-01-01'') ! 1 =
     Call ''getScanCollection''
       [VStr (domain (getConfig example_env ''example.com'' ''2024-01-01'')),
        VStr (dateOfScan (getConfig example_env ''example.com'' ''2024-01-01''))]"
proof -
  have l: "3 < length (fst (initiateEvaluation example_env ''example.com'' ''2024-01-01''))"
    by (simp add: example_run)
  have a: "fst (initiateEvaluation example_env ''example.com'' ''2024-01-01'') ! 2 =
     Call ''getDataForDuplicateCheck'' [VStr ''example.com'', VStr ''2024-01-01'']"
    by (simp add: example_run)
  have b: "is_per_url (fst (initiateEvaluation example_env ''example.com'' ''2024-01-01'') ! 3)"
    by (simp add: example_run numeral_3_eq_3)
  from fetches_precede_per_url_work [of example_env "''example.com''" "''2024-01-01''"] l b
  have "fst (initiateEvaluation example_env ''example.com'' ''2024-01-01'') ! 1 =
     Call ''getScanCollection''
       [VStr (domain (getConfig example_env ''example.com'' ''2024-01-01'')),
        VStr (dateOfScan (getConfig example_env ''example.com'' ''2024-01-01''))]"
    by blast
  with a b show ?thesis by blast
qed

text \<open>
  C9, amended. If the fetched scan result set is empty and the fetch of the duplicate
  context is fulfilled, the run is fulfilled, and its trace is the call to \<^verbatim>\<open>getConfig\<close>,
  the two retrievals and the end of the run: no check is called and nothing is submitted.
\<close>

theorem empty_scan_resolves:
  assumes "getScanCollection env (domain (getConfig env d s)) (dateOfScan (getConfig env d s))
             = Fulfilled []"
    and "getDataForDuplicateCheck env (domain (getConfig env d s)) (dateOfScan (getConfig env d s))
             = Fulfilled all"
  shows "initiateEvaluation env d s =
           ([Call ''getConfig'' [VStr d, VStr s],
             Call ''getScanCollection''
               [VStr (domain (getConfig env d s)), VStr (dateOfScan (getConfig env d s))],
             Call ''getDataForDuplicateCheck''
               [VStr (domain (getConfig env d s)), VStr (dateOfScan (getConfig env d s))],
             Done (Inr ())],
            Fulfilled ())"
  using assms by (simp add: initiateEvaluation_def Let_def settle_order_def)

theorem empty_scan_resolves_witness:
  "getScanCollection empty_scan_env
       (domain (getConfig empty_scan_env ''example.com'' ''2024-01-01''))
       (dateOfScan (getConfig empty_scan_env ''example.com'' ''2024-01-01'')) = Fulfilled []
   \<and> getDataForDuplicateCheck empty_scan_env
       (domain (getConfig empty_scan_env ''example.com'' ''2024-01-01''))
       (dateOfScan (getConfig empty_scan_env ''example.com'' ''2024-01-01'')) = Fulfilled ''all''
   \<and> initiateEvaluation empty_scan_env ''example.com'' ''2024-01-01'' =
       ([Call ''getConfig'' [VStr ''example.com'', VStr ''2024-01-01''],
         Call ''getScanCollection'' [VStr ''example.com'', VStr ''2024-01-01''],
         Call ''getDataForDuplicateCheck'' [VStr ''example.com'', VStr ''2024-01-01''],
         Done (Inr ())],
        Fulfilled ())"
proof -
  have h1: "getScanCollection empty_scan_env
       (domain (getConfig empty_scan_env ''example.com'' ''2024-01-01''))
       (dateOfScan (getConfig empty_scan_env ''example.com'' ''2024-01-01'')) = Fulfilled []"
    by (simp add: empty_scan_env_def)
  have h2: "getDataForDuplicateCheck empty_scan_env
       (domain (getConfig empty_scan_env ''example.com'' ''2024-01-01''))
       (dateOfScan (getConfig empty_scan_env ''example.com'' ''2024-01-01'')) = Fulfilled ''all''"
    by (simp add: empty_scan_env_def example_env_def)
  have c: "getConfig empty_scan_env ''example.com'' ''2024-01-01'' =
      \<lparr>domain = ''example.com'', dateOfScan = ''2024-01-01'', urlId = None\<rparr>"
    by (simp add: empty_scan_env_def example_env_def)
  show ?thesis
    using h1 h2 empty_scan_resolves [OF h1 h2] by (simp add: c)
qed

text \<open>
  As it is stated, C9 asks for no more than an empty result set. With an empty
  result set and a duplicate context whose fetch is rejected, the run is rejected.
\<close>

theorem empty_scan_counterexample:
  "getScanCollection no_context_env
       (domain (getConfig no_context_env ''example.com'' ''2024-01-01''))
       (dateOfScan (getConfig no_context_env ''example.com'' ''2024-01-01'')) = Fulfilled []
   \<and> initiateEvaluation no_context_env ''example.com'' ''2024-01-01'' =
       ([Call ''getConfig'' [VStr ''example.com'', VStr ''2024-01-01''],
         Call ''getScanCollection'' [VStr ''example.com'', VStr ''2024-01-01''],
         Call ''getDataForDuplicateCheck'' [VStr ''example.com'', VStr ''2024-01-01''],
         Call ''console.error'' [VStr ''Error during evaluation:'', VErr ''unavailable''],
         Done (Inl ''unavailable'')],
        Rejected ''unavailable'')
   \<and> snd (initiateEvaluation no_context_env ''example.com'' ''2024-01-01'') \<noteq> Fulfilled ()"
  by (simp add: initiateEvaluation_def no_context_env_def example_env_def catch_block_def Let_def)

text \<open>
  C10. The callback does not await what the checks return. Whatever the four checks
  return, plain values or promises in any state, the bundle holds these very values under
  \<open>meta\<close>, \<open>body\<close>, \<open>social\<close> and \<open>schema\<close>, the sink is called with it directly after the
  fourth check, and the promise of the callback is decided by the sink alone.
\<close>

theorem raw_check_results_submitted:
  fixes env :: "('e, 'd, ('x, 'v) returned) env"
  assumes "checkMetaData env (meta urlData) all = Inr r1"
    and "checkBodyData env (body urlData) = Inr r2"
    and "checkSocialData env (social urlData) = Inr r3"
    and "checkSchemaData env (schema urlData) = Inr r4"
  shows "callback env all (k, urlData) config =
           (config\<lparr>urlId := Some k\<rparr>,
            [Call ''checkMetaData'' [VData (meta urlData), VData all],
             Call ''checkBodyData'' [VData (body urlData)],
             Call ''checkSocialData'' [VData (social urlData)],
             Call ''checkSchemaData'' [VData (schema urlData)],
             Call ''updateIssueDocument''
               [VConfig (config\<lparr>urlId := Some k\<rparr>),
                VIssues [(''meta'', r1), (''body'', r2), (''social'', r3), (''schema'', r4)]]],
            (case updateIssueDocument env (config\<lparr>urlId := Some k\<rparr>)
                    [(''meta'', r1), (''body'', r2), (''social'', r3), (''schema'', r4)] of
               Inl e \<Rightarrow> Threw e
             | Inr p \<Rightarrow> Adopted p))"
  using assms by (simp add: callback_def collect_issues_def Let_def split: sum.splits)

theorem raw_check_results_submitted_witness:
  "checkMetaData async_env ''m1'' ''all'' = Inr (Thenable Pending)
   \<and> checkBodyData async_env ''b1'' = Inr (Thenable (Rejected ''late''))
   \<and> checkSocialData async_env ''s1'' = Inr (Thenable (Fulfilled ''s1''))
   \<and> checkSchemaData async_env ''c1'' = Inr (Plain ''c1'')
   \<and> callback async_env ''all''
        (''u1'', \<lparr>meta = ''m1'', body = ''b1'', social = ''s1'', schema = ''c1''\<rparr>)
        \<lparr>domain = ''example.com'', dateOfScan = ''2024-01-01'', urlId = None\<rparr> =
       (\<lparr>domain = ''example.com'', dateOfScan = ''2024-01-01'', urlId = Some ''u1''\<rparr>,
        [Call ''checkMetaData'' [VData ''m1'', VData ''all''],
         Call ''checkBodyData'' [VData ''b1''],
         Call ''checkSocialData'' [VData ''s1''],
         Call ''checkSchemaData'' [VData ''c1''],
         Call ''updateIssueDocument''
           [VConfig \<lparr>domain = ''example.com'', dateOfScan = ''2024-01-01'', urlId = Some ''u1''\<rparr>,
            VIssues [(''meta'', Thenable Pending), (''body'', Thenable (Rejected ''late'')),
                     (''social'', Thenable (Fulfilled ''s1'')), (''schema'', Plain ''c1'')]]],
        Adopted (FulfilsAt 0))"
proof -
  have h1: "checkMetaData async_env
      (meta \<lparr>meta = ''m1'', body = ''b1'', social = ''s1'', schema = ''c1''\<rparr>) ''all''
      = Inr (Thenable Pending)"
    by (simp add: async_env_def)
  have h2: "checkBodyData async_env
      (body \<lparr>meta = ''m1'', body = ''b1'', social = ''s1'', schema = ''c1''\<rparr>)
      = Inr (Thenable (Rejected ''late''))"
    by (simp add: async_env_def)
  have h3: "checkSocialData async_env
      (social \<lparr>meta = ''m1'', body = ''b1'', social = ''s1'', schema = ''c1''\<rparr>)
      = Inr (Thenable (Fulfilled ''s1''))"
    by (simp add: async_env_def)
  have h4: "checkSchemaData async_env
      (schema \<lparr>meta = ''m1'', body = ''b1'', social = ''s1'', schema = ''c1''\<rparr>)
      = Inr (Plain ''c1'')"
    by (simp add: async_env_def)
  have u: "updateIssueDocument async_env c b = Inr (FulfilsAt 0)" for c b
    by (simp add: async_env_def)
  show ?thesis
    using h1 h2 h3 h4
      raw_check_results_submitted [OF h1 h2 h3 h4, of "''u1''"
        "\<lparr>domain = ''example.com'', dateOfScan = ''2024-01-01'', urlId = None\<rparr>"]
    by (simp add: u)
qed

section \<open>Claims about the authentication wrappers\<close>

text \<open>
  C7. When the call to the identity provider is rejected, each wrapper is rejected with
  the same error, and its trace is the call to the provider followed by one line on the
  console with the failure message and that error; nothing else happens.
\<close>

theorem wrappers_rethrow_provider_error:
  "(createUserWithEmailAndPassword fb (auth fb) email' password = Rejected e \<longrightarrow>
      register fb email' password =
        ([(''createUserWithEmailAndPassword'', [Auth (auth fb), Str email', Str password]),
          (''console.log'', [Str ''Registration failed:'', Err e])],
         Rejected e))
 \<and> (signInWithEmailAndPassword fb (auth fb) email' password = Rejected e \<longrightarrow>
      login fb email' password =
        ([(''signInWithEmailAndPassword'', [Auth (auth fb), Str email', Str password]),
          (''console.log'', [Str ''Sign-in failed:'', Err e])],
         Rejected e))
 \<and> (sendPasswordResetEmail fb (auth fb) email' = Rejected e \<longrightarrow>
      resetPassword fb email' =
        ([(''sendPasswordResetEmail'', [Auth (auth fb), Str email']),
          (''console.log'', [Str ''Password reset failed:'', Err e])],
         Rejected e))"
  by (simp add: register_def login_def resetPassword_def Let_def)

theorem wrappers_rethrow_provider_error_witness:
  "createUserWithEmailAndPassword failing_firebase (auth failing_firebase) ''ann@example.com'' ''pw''
     = Rejected ''auth/email-already-in-use''
 \<and> register failing_firebase ''ann@example.com'' ''pw'' =
       ([(''createUserWithEmailAndPassword'', [Auth ''app'', Str ''ann@example.com'', Str ''pw'']),
         (''console.log'', [Str ''Registration failed:'', Err ''auth/email-already-in-use''])],
        Rejected ''auth/email-already-in-use'')
 \<and> signInWithEmailAndPassword failing_firebase (auth failing_firebase) ''ann@example.com'' ''pw''
     = Rejected ''auth/wrong-password''
 \<and> login failing_firebase ''ann@example.com'' ''pw'' =
       ([(''signInWithEmailAndPassword'', [Auth ''app'', Str ''ann@example.com'', Str ''pw'']),
         (''console.log'', [Str ''Sign-in failed:'', Err ''auth/wrong-password''])],
        Rejected ''auth/wrong-password'')
 \<and> sendPasswordResetEmail failing_firebase (auth failing_firebase) ''ann@example.com''
     = Rejected ''auth/user-not-found''
 \<and> resetPassword failing_firebase ''ann@example.com'' =
       ([(''sendPasswordResetEmail'', [Auth ''app'', Str ''ann@example.com'']),
         (''console.log'', [Str ''Password reset failed:'', Err ''auth/user-not-found''])],
        Rejected ''auth/user-not-found'')"
proof -
  have h1: "createUserWithEmailAndPassword failing_firebase (auth failing_firebase)
      ''ann@example.com'' ''pw'' = Rejected ''auth/email-already-in-use''"
    by (simp add: failing_firebase_def)
  have h2: "signInWithEmailAndPassword failing_firebase (auth failing_firebase)
      ''ann@example.com'' ''pw'' = Rejected ''auth/wrong-password''"
    by (simp add: failing_firebase_def)
  have h3: "sendPasswordResetEmail failing_firebase (auth failing_firebase) ''ann@example.com''
      = Rejected ''auth/user-not-found''"
    by (simp add: failing_firebase_def)
  have a: "auth failing_firebase = ''app''" by (simp add: failing_firebase_def)
  show ?thesis
    using h1 h2 h3
      wrappers_rethrow_provider_error
        [of failing_firebase "''ann@example.com''" "''pw''" "''auth/email-already-in-use''"]
      wrappers_rethrow_provider_error
        [of failing_firebase "''ann@example.com''" "''pw''" "''auth/wrong-password''"]
      wrappers_rethrow_provider_error
        [of failing_firebase "''ann@example.com''" "''pw''" "''auth/user-not-found''"]
    by (simp add: a)
qed

text \<open>
  C8. When the sign-in is fulfilled, \<^verbatim>\<open>login\<close> is fulfilled with an object of exactly
  two properties, \<open>uid\<close> and \<open>email\<close>, read from the user of the returned credential. When
  the registration is fulfilled, \<^verbatim>\<open>register\<close> is fulfilled with that user itself.
\<close>

theorem login_and_register_results:
  "(signInWithEmailAndPassword fb (auth fb) email' password = Fulfilled credential \<longrightarrow>
      snd (login fb email' password) =
        Fulfilled [(''uid'', uid (user credential)), (''email'', email (user credential))])
 \<and> (createUserWithEmailAndPassword fb (auth fb) email' password = Fulfilled credential' \<longrightarrow>
      snd (register fb email' password) = Fulfilled (user credential'))"
  by (simp add: register_def login_def Let_def)

theorem login_and_register_results_witness:
  "signInWithEmailAndPassword example_firebase (auth example_firebase) ''ann@example.com'' ''pw''
     = Fulfilled \<lparr>user = example_user\<rparr>
 \<and> snd (login example_firebase ''ann@example.com'' ''pw'') =
       Fulfilled [(''uid'', ''U1''), (''email'', ''ann@example.com'')]
 \<and> createUserWithEmailAndPassword example_firebase (auth example_firebase) ''ann@example.com'' ''pw''
     = Fulfilled \<lparr>user = example_user\<rparr>
 \<and> snd (register example_firebase ''ann@example.com'' ''pw'') =
       Fulfilled \<lparr>uid = ''U1'', email = ''ann@example.com'', displayName = ''Ann''\<rparr>"
proof -
  have h1: "signInWithEmailAndPassword example_firebase (auth example_firebase)
      ''ann@example.com'' ''pw'' = Fulfilled \<lparr>user = example_user\<rparr>"
    by (simp add: example_firebase_def)
  have h2: "createUserWithEmailAndPassword example_firebase (auth example_firebase)
      ''ann@example.com'' ''pw'' = Fulfilled \<lparr>user = example_user\<rparr>"
    by (simp add: example_firebase_def)
  show ?thesis
    using h1 h2
      login_and_register_results
        [of example_firebase "''ann@example.com''" "''pw''" "\<lparr>user = example_user\<rparr>"
            "\<lparr>user = example_user\<rparr>"]
    by (simp add: example_user_def)
qed

end
